theory Spec2Isabelle
  imports Main
begin

section \<open>DeNewsContent: data model\<close>

text \<open>
  The contract \<open>DeNewsContent\<close> of \<open>contracts/DeNewsToken.sol\<close>, embedded as a state record
  and one state transformer per external function. A call either reverts (\<open>Inl\<close>, the
  state is the one before the call: the transaction is rolled back) or returns the state
  after it (\<open>Inr\<close>).

  \<^item> \<open>uint256\<close> is \<open>nat\<close>; Solidity 0.8 arithmetic is checked, so \<open>+=\<close> and \<open>-=\<close> are
    \<open>checked_add\<close> and \<open>checked_sub\<close>, which fail outside \<open>0 .. 2^256 - 1\<close>.
  \<^item> \<open>address\<close> and \<open>bytes32\<close> are \<open>nat\<close>; \<open>bytes\<close> and \<open>string\<close> are lists of \<open>char\<close>
    (a \<open>char\<close> is one byte).
  \<^item> a \<open>mapping\<close> is a total function: every key holds the zero value until written.
  \<^item> events are not part of the state and are left out; \<open>nonReentrant\<close> guards a body
    that makes no external call and restores its flag, so it is left out as well.
\<close>

type_synonym address = nat
type_synonym uint256 = nat
type_synonym bytes32 = nat
type_synonym bytes = "char list"

datatype UserType = Individual | Journalist | Organization

datatype ModerationStatus = NoneStatus | Flagged | UnderVote | Removed

datatype ProposalStatus = Active | Passed | Rejected | Executed

datatype ProposalType = RemoveContent | UpdateParameters | GrantRole | RevokeRole

record UserProfile =
  userAddress :: address
  username :: string
  user_metadataHash :: string
  userType :: UserType
  isVerified :: bool
  registrationTime :: uint256

record NewsPost =
  post_id :: uint256
  author :: address
  contentHash :: string
  post_metadataHash :: string
  timestamp :: uint256
  category :: string
  likes :: uint256
  comments :: uint256
  moderationStatus :: ModerationStatus

record Comment =
  comment_id :: uint256
  comment_postId :: uint256
  comment_author :: address
  content :: string
  comment_timestamp :: uint256
  comment_moderationStatus :: ModerationStatus

record Proposal =
  proposal_id :: uint256
  proposer :: address
  proposalType :: ProposalType
  data :: bytes
  startTime :: uint256
  endTime :: uint256
  forVotes :: uint256
  againstVotes :: uint256
  status :: ProposalStatus
  descriptionHash :: string

record ModerationVote =
  proposalId :: uint256
  vote_postId :: uint256
  vote_startTime :: uint256
  vote_endTime :: uint256
  forRemovalVotes :: uint256
  againstRemovalVotes :: uint256
  executed :: bool

record state =
  users :: "address \<Rightarrow> UserProfile"
  posts :: "uint256 \<Rightarrow> NewsPost"
  postComments :: "uint256 \<Rightarrow> Comment list"
  userPosts :: "address \<Rightarrow> uint256 list"
  following :: "address \<Rightarrow> address list"
  postLikes :: "uint256 \<Rightarrow> address \<Rightarrow> bool"
  proposals :: "uint256 \<Rightarrow> Proposal"
  hasVoted :: "uint256 \<Rightarrow> address \<Rightarrow> bool"
  moderationVotes :: "uint256 \<Rightarrow> ModerationVote"
  flagThreshold :: uint256
  voteDuration :: uint256
  quorumPercentage :: uint256
  postIdCounter :: uint256
  commentIdCounter :: uint256
  proposalIdCounter :: uint256
  roles :: "bytes32 \<Rightarrow> address \<Rightarrow> bool"

text \<open>The execution context of a call: \<open>msg.sender\<close> and \<open>block.timestamp\<close>.\<close>

record env =
  msg_sender :: address
  block_timestamp :: uint256

datatype error =
    Revert string
  | Unauthorized
  | Panic
  | DecodeFailure

subsection \<open>Zero values\<close>

definition zero_UserProfile :: UserProfile where
  "zero_UserProfile = \<lparr>userAddress = 0, username = [], user_metadataHash = [],
     userType = Individual, isVerified = False, registrationTime = 0\<rparr>"

definition zero_NewsPost :: NewsPost where
  "zero_NewsPost = \<lparr>post_id = 0, author = 0, contentHash = [], post_metadataHash = [],
     timestamp = 0, category = [], likes = 0, comments = 0, moderationStatus = NoneStatus\<rparr>"

definition zero_Proposal :: Proposal where
  "zero_Proposal = \<lparr>proposal_id = 0, proposer = 0, proposalType = RemoveContent, data = [],
     startTime = 0, endTime = 0, forVotes = 0, againstVotes = 0, status = Active,
     descriptionHash = []\<rparr>"

definition zero_ModerationVote :: ModerationVote where
  "zero_ModerationVote = \<lparr>proposalId = 0, vote_postId = 0, vote_startTime = 0,
     vote_endTime = 0, forRemovalVotes = 0, againstRemovalVotes = 0, executed = False\<rparr>"

subsection \<open>Checked arithmetic\<close>

definition UINT256_MAX :: nat where
  "UINT256_MAX = 2 ^ 256 - 1"

definition checked_add :: "uint256 \<Rightarrow> uint256 \<Rightarrow> uint256 option" where
  "checked_add a b = (if a + b \<le> UINT256_MAX then Some (a + b) else None)"

definition checked_sub :: "uint256 \<Rightarrow> uint256 \<Rightarrow> uint256 option" where
  "checked_sub a b = (if b \<le> a then Some (a - b) else None)"

subsection \<open>Role constants and the role relation\<close>

text \<open>
  \<open>ADMIN_ROLE\<close> and \<open>MODERATOR_ROLE\<close> are \<open>keccak256("ADMIN_ROLE")\<close> and
  \<open>keccak256("MODERATOR_ROLE")\<close>, written out as numbers
  (\<open>0xa498...1775\<close> and \<open>0x71f3...834f\<close>).
\<close>

definition DEFAULT_ADMIN_ROLE :: bytes32 where
  "DEFAULT_ADMIN_ROLE = 0"

definition ADMIN_ROLE :: bytes32 where
  "ADMIN_ROLE = 74447917106227587185069542233768419360415527974423666340979253117352358844277"

definition MODERATOR_ROLE :: bytes32 where
  "MODERATOR_ROLE = 51542168180248082152030056451728049499749905167243835096059084772534901506895"

text \<open>
  Modelled from the spec: the role relation of section 4.1 (\<open>RoleAuthority\<close>), which the
  contract inherits from the imported AccessControl base and which is not under src/.
  \<open>_grantRole\<close> and \<open>_revokeRole\<close> set and clear one entry of the relation.
\<close>

definition grantRole_internal :: "bytes32 \<Rightarrow> address \<Rightarrow> state \<Rightarrow> state" where
  "grantRole_internal role account s = s\<lparr>roles := (roles s)(role := (roles s role)(account := True))\<rparr>"

definition revokeRole_internal :: "bytes32 \<Rightarrow> address \<Rightarrow> state \<Rightarrow> state" where
  "revokeRole_internal role account s = s\<lparr>roles := (roles s)(role := (roles s role)(account := False))\<rparr>"

text \<open>
  Modelled from the spec: the external \<open>grant\<close> and \<open>revoke\<close> of section 4.1, callable by
  a holder of the admin role of the role (the zero role, which the constructor grants to
  the deployer together with \<open>ADMIN_ROLE\<close>), and \<open>renounceRole\<close>, by which a caller gives
  up a role of its own.
\<close>

definition grantRole :: "env \<Rightarrow> bytes32 \<Rightarrow> address \<Rightarrow> state \<Rightarrow> error + state" where
  "grantRole e role account s =
     (if \<not> roles s DEFAULT_ADMIN_ROLE (msg_sender e) then Inl Unauthorized
      else Inr (grantRole_internal role account s))"

definition revokeRole :: "env \<Rightarrow> bytes32 \<Rightarrow> address \<Rightarrow> state \<Rightarrow> error + state" where
  "revokeRole e role account s =
     (if \<not> roles s DEFAULT_ADMIN_ROLE (msg_sender e) then Inl Unauthorized
      else Inr (revokeRole_internal role account s))"

definition renounceRole :: "env \<Rightarrow> bytes32 \<Rightarrow> address \<Rightarrow> state \<Rightarrow> error + state" where
  "renounceRole e role account s =
     (if account \<noteq> msg_sender e then Inl Unauthorized
      else Inr (revokeRole_internal role account s))"

subsection \<open>ABI encoding of proposal payloads\<close>

text \<open>
  Modelled from the spec: the payload codec (\<open>abi.encode\<close>, \<open>abi.decode\<close>) is a language
  builtin and not under src/. A payload is a byte string made of 32-byte big-endian
  words. \<open>abi.decode\<close> reverts on a payload that is too short, on an address word with
  one of its upper 96 bits set, and on a string whose offset or length points outside the
  payload; bytes after the decoded part are ignored.
\<close>

definition be_nat :: "bytes \<Rightarrow> nat" where
  "be_nat bs = foldl (\<lambda>acc b. acc * 256 + of_char b) 0 bs"

definition abi_word :: "bytes \<Rightarrow> nat \<Rightarrow> uint256 option" where
  "abi_word bs off =
     (if off + 32 \<le> length bs then Some (be_nat (take 32 (drop off bs))) else None)"

definition abi_encode_uint256 :: "uint256 \<Rightarrow> bytes" where
  "abi_encode_uint256 n = map (\<lambda>i. char_of (n div 256 ^ (31 - i))) [0..<32]"

definition abi_decode_uint256 :: "bytes \<Rightarrow> uint256 option" where
  "abi_decode_uint256 bs = abi_word bs 0"

definition abi_encode_bytes32_address :: "bytes32 \<Rightarrow> address \<Rightarrow> bytes" where
  "abi_encode_bytes32_address role account = abi_encode_uint256 role @ abi_encode_uint256 account"

definition abi_decode_bytes32_address :: "bytes \<Rightarrow> (bytes32 \<times> address) option" where
  "abi_decode_bytes32_address bs =
     (case (abi_word bs 0, abi_word bs 32) of
        (Some role, Some account) \<Rightarrow> (if account < 2 ^ 160 then Some (role, account) else None)
      | _ \<Rightarrow> None)"

definition abi_decode_string_uint256 :: "bytes \<Rightarrow> (string \<times> uint256) option" where
  "abi_decode_string_uint256 bs =
     (case (abi_word bs 0, abi_word bs 32) of
        (Some off, Some v) \<Rightarrow>
          (if off > 2 ^ 64 - 1 then None
           else (case abi_word bs off of
                   None \<Rightarrow> None
                 | Some len \<Rightarrow>
                     (if len > 2 ^ 64 - 1 then None
                      else if off + 32 + len > length bs then None
                      else Some (take len (drop (off + 32) bs), v))))
      | _ \<Rightarrow> None)"

text \<open>
  \<open>abi.encode(name, value)\<close> for a string and a \<open>uint256\<close>: the offset of the string (64),
  the value, then the length of the string and its bytes, padded with zero bytes to a
  multiple of 32.
\<close>

definition abi_encode_string_uint256 :: "string \<Rightarrow> uint256 \<Rightarrow> bytes" where
  "abi_encode_string_uint256 name v =
     abi_encode_uint256 64 @ abi_encode_uint256 v @ abi_encode_uint256 (length name) @ name
       @ map (\<lambda>_. char_of (0::nat)) [0..<(32 - length name mod 32) mod 32]"

section \<open>DeNewsContent: the external functions\<close>

text \<open>The constructor: parameters at their initial values, both admin roles to the deployer.\<close>

definition init :: "address \<Rightarrow> state" where
  "init deployer =
     grantRole_internal ADMIN_ROLE deployer
       (grantRole_internal DEFAULT_ADMIN_ROLE deployer
          \<lparr>users = (\<lambda>_. zero_UserProfile),
           posts = (\<lambda>_. zero_NewsPost),
           postComments = (\<lambda>_. []),
           userPosts = (\<lambda>_. []),
           following = (\<lambda>_. []),
           postLikes = (\<lambda>_ _. False),
           proposals = (\<lambda>_. zero_Proposal),
           hasVoted = (\<lambda>_ _. False),
           moderationVotes = (\<lambda>_. zero_ModerationVote),
           flagThreshold = 3,
           voteDuration = 259200,
           quorumPercentage = 10,
           postIdCounter = 0,
           commentIdCounter = 0,
           proposalIdCounter = 0,
           roles = (\<lambda>_ _. False)\<rparr>)"

definition registerUser :: "env \<Rightarrow> string \<Rightarrow> string \<Rightarrow> UserType \<Rightarrow> state \<Rightarrow> error + state" where
  "registerUser e uname mhash utype s =
     (if registrationTime (users s (msg_sender e)) \<noteq> 0 then Inl (Revert ''User already registered'')
      else Inr (s\<lparr>users := (users s)(msg_sender e :=
                  \<lparr>userAddress = msg_sender e, username = uname, user_metadataHash = mhash,
                   userType = utype, isVerified = False,
                   registrationTime = block_timestamp e\<rparr>)\<rparr>))"

definition verifyUser :: "env \<Rightarrow> address \<Rightarrow> state \<Rightarrow> error + state" where
  "verifyUser e userAddr s =
     (if \<not> roles s MODERATOR_ROLE (msg_sender e) then Inl Unauthorized
      else if \<not> registrationTime (users s userAddr) > 0 then Inl (Revert ''User not registered'')
      else if isVerified (users s userAddr) then Inl (Revert ''User already verified'')
      else Inr (s\<lparr>users := (users s)(userAddr := (users s userAddr)\<lparr>isVerified := True\<rparr>)\<rparr>))"

text \<open>
  Modelled from the spec: the id counters (the imported Counters library is not under
  src/). Section 3 has ids strictly increasing from 0 and never reused, so \<open>current\<close>
  reads the counter and \<open>increment\<close> adds one, without a bound.
\<close>

definition createPost :: "env \<Rightarrow> string \<Rightarrow> string \<Rightarrow> string \<Rightarrow> state \<Rightarrow> error + (uint256 \<times> state)" where
  "createPost e chash mhash cat s =
     (if \<not> registrationTime (users s (msg_sender e)) > 0 then Inl (Revert ''User not registered'')
      else
        let postId = postIdCounter s in
        Inr (postId,
             s\<lparr>postIdCounter := postIdCounter s + 1,
               posts := (posts s)(postId :=
                  \<lparr>post_id = postId, author = msg_sender e, contentHash = chash,
                   post_metadataHash = mhash, timestamp = block_timestamp e, category = cat,
                   likes = 0, comments = 0, moderationStatus = NoneStatus\<rparr>),
               userPosts := (userPosts s)(msg_sender e := userPosts s (msg_sender e) @ [postId])\<rparr>))"

definition likePost :: "env \<Rightarrow> uint256 \<Rightarrow> state \<Rightarrow> error + state" where
  "likePost e postId s =
     (if author (posts s postId) = 0 then Inl (Revert ''Post does not exist'')
      else if postLikes s postId (msg_sender e) then Inl (Revert ''Already liked this post'')
      else
        (case checked_add (likes (posts s postId)) 1 of
           None \<Rightarrow> Inl Panic
         | Some n \<Rightarrow>
             Inr (s\<lparr>postLikes := (postLikes s)(postId := (postLikes s postId)(msg_sender e := True)),
                    posts := (posts s)(postId := (posts s postId)\<lparr>likes := n\<rparr>)\<rparr>)))"

definition unlikePost :: "env \<Rightarrow> uint256 \<Rightarrow> state \<Rightarrow> error + state" where
  "unlikePost e postId s =
     (if author (posts s postId) = 0 then Inl (Revert ''Post does not exist'')
      else if \<not> postLikes s postId (msg_sender e) then Inl (Revert ''Haven't liked this post'')
      else
        (case checked_sub (likes (posts s postId)) 1 of
           None \<Rightarrow> Inl Panic
         | Some n \<Rightarrow>
             Inr (s\<lparr>postLikes := (postLikes s)(postId := (postLikes s postId)(msg_sender e := False)),
                    posts := (posts s)(postId := (posts s postId)\<lparr>likes := n\<rparr>)\<rparr>)))"

definition addComment :: "env \<Rightarrow> uint256 \<Rightarrow> string \<Rightarrow> state \<Rightarrow> error + (uint256 \<times> state)" where
  "addComment e postId body s =
     (if author (posts s postId) = 0 then Inl (Revert ''Post does not exist'')
      else if \<not> registrationTime (users s (msg_sender e)) > 0 then Inl (Revert ''User not registered'')
      else
        let commentId = commentIdCounter s;
            newComment = \<lparr>comment_id = commentId, comment_postId = postId,
                          comment_author = msg_sender e, content = body,
                          comment_timestamp = block_timestamp e,
                          comment_moderationStatus = NoneStatus\<rparr>
        in (case checked_add (comments (posts s postId)) 1 of
              None \<Rightarrow> Inl Panic
            | Some n \<Rightarrow>
                Inr (commentId,
                     s\<lparr>commentIdCounter := commentIdCounter s + 1,
                       postComments := (postComments s)(postId := postComments s postId @ [newComment]),
                       posts := (posts s)(postId := (posts s postId)\<lparr>comments := n\<rparr>)\<rparr>)))"

definition flagContent :: "env \<Rightarrow> uint256 \<Rightarrow> state \<Rightarrow> error + state" where
  "flagContent e postId s =
     (if author (posts s postId) = 0 then Inl (Revert ''Post does not exist'')
      else if \<not> registrationTime (users s (msg_sender e)) > 0 then Inl (Revert ''User not registered'')
      else if moderationStatus (posts s postId) \<noteq> NoneStatus
        then Inl (Revert ''Content already flagged or under review'')
      else Inr (s\<lparr>posts := (posts s)(postId := (posts s postId)\<lparr>moderationStatus := Flagged\<rparr>)\<rparr>))"

definition startModerationVote :: "env \<Rightarrow> uint256 \<Rightarrow> state \<Rightarrow> error + state" where
  "startModerationVote e postId s =
     (if \<not> roles s MODERATOR_ROLE (msg_sender e) then Inl Unauthorized
      else if author (posts s postId) = 0 then Inl (Revert ''Post does not exist'')
      else if moderationStatus (posts s postId) \<noteq> Flagged then Inl (Revert ''Content not flagged'')
      else
        let pid = proposalIdCounter s;
            proposalData = abi_encode_uint256 postId
        in (case checked_add (block_timestamp e) (voteDuration s) of
              None \<Rightarrow> Inl Panic
            | Some deadline \<Rightarrow>
                Inr (s\<lparr>proposalIdCounter := proposalIdCounter s + 1,
                       proposals := (proposals s)(pid :=
                          \<lparr>proposal_id = pid, proposer = msg_sender e,
                           proposalType = RemoveContent, data = proposalData,
                           startTime = block_timestamp e, endTime = deadline,
                           forVotes = 0, againstVotes = 0, status = Active,
                           descriptionHash = []\<rparr>),
                       moderationVotes := (moderationVotes s)(postId :=
                          \<lparr>proposalId = pid, vote_postId = postId,
                           vote_startTime = block_timestamp e, vote_endTime = deadline,
                           forRemovalVotes = 0, againstRemovalVotes = 0, executed = False\<rparr>),
                       posts := (posts s)(postId := (posts s postId)\<lparr>moderationStatus := UnderVote\<rparr>)\<rparr>)))"

text \<open>
  \<open>castModerationVote\<close> in the order of the source: the five \<open>require\<close>s, then the write
  of \<open>hasVoted\<close> (\<open>castVote_record\<close>), then the weight updates on the state so obtained
  (\<open>castVote_tally\<close>).
\<close>

definition castVote_record :: "env \<Rightarrow> uint256 \<Rightarrow> state \<Rightarrow> error + state" where
  "castVote_record e pid s =
     (if proposal_id (proposals s pid) \<noteq> pid then Inl (Revert ''Proposal does not exist'')
      else if status (proposals s pid) \<noteq> Active then Inl (Revert ''Proposal not active'')
      else if \<not> block_timestamp e < endTime (proposals s pid) then Inl (Revert ''Voting period ended'')
      else if hasVoted s pid (msg_sender e) then Inl (Revert ''Already voted'')
      else if \<not> registrationTime (users s (msg_sender e)) > 0 then Inl (Revert ''User not registered'')
      else Inr (s\<lparr>hasVoted := (hasVoted s)(pid := (hasVoted s pid)(msg_sender e := True))\<rparr>))"

definition castVote_tally :: "uint256 \<Rightarrow> bool \<Rightarrow> uint256 \<Rightarrow> state \<Rightarrow> error + state" where
  "castVote_tally pid support voteWeight s =
     (if support then
        (case checked_add (forVotes (proposals s pid)) voteWeight of
           None \<Rightarrow> Inl Panic
         | Some f \<Rightarrow>
             let s' = s\<lparr>proposals := (proposals s)(pid := (proposals s pid)\<lparr>forVotes := f\<rparr>)\<rparr> in
             if proposalType (proposals s' pid) = RemoveContent then
               (case abi_decode_uint256 (data (proposals s' pid)) of
                  None \<Rightarrow> Inl DecodeFailure
                | Some postId \<Rightarrow>
                    (case checked_add (forRemovalVotes (moderationVotes s' postId)) voteWeight of
                       None \<Rightarrow> Inl Panic
                     | Some g \<Rightarrow>
                         Inr (s'\<lparr>moderationVotes := (moderationVotes s')(postId :=
                                   (moderationVotes s' postId)\<lparr>forRemovalVotes := g\<rparr>)\<rparr>)))
             else Inr s')
      else
        (case checked_add (againstVotes (proposals s pid)) voteWeight of
           None \<Rightarrow> Inl Panic
         | Some a \<Rightarrow>
             let s' = s\<lparr>proposals := (proposals s)(pid := (proposals s pid)\<lparr>againstVotes := a\<rparr>)\<rparr> in
             if proposalType (proposals s' pid) = RemoveContent then
               (case abi_decode_uint256 (data (proposals s' pid)) of
                  None \<Rightarrow> Inl DecodeFailure
                | Some postId \<Rightarrow>
                    (case checked_add (againstRemovalVotes (moderationVotes s' postId)) voteWeight of
                       None \<Rightarrow> Inl Panic
                     | Some g \<Rightarrow>
                         Inr (s'\<lparr>moderationVotes := (moderationVotes s')(postId :=
                                   (moderationVotes s' postId)\<lparr>againstRemovalVotes := g\<rparr>)\<rparr>)))
             else Inr s'))"

definition castModerationVote :: "env \<Rightarrow> uint256 \<Rightarrow> bool \<Rightarrow> uint256 \<Rightarrow> state \<Rightarrow> error + state" where
  "castModerationVote e pid support voteWeight s =
     (case castVote_record e pid s of
        Inl err \<Rightarrow> Inl err
      | Inr s1 \<Rightarrow> castVote_tally pid support voteWeight s1)"

definition executeModerationVote :: "env \<Rightarrow> uint256 \<Rightarrow> state \<Rightarrow> error + state" where
  "executeModerationVote e postId s =
     (let vote = moderationVotes s postId in
      if vote_postId vote \<noteq> postId then Inl (Revert ''Vote does not exist'')
      else if executed vote then Inl (Revert ''Vote already executed'')
      else if \<not> block_timestamp e \<ge> vote_endTime vote then Inl (Revert ''Voting period not ended'')
      else
        let s1 = s\<lparr>moderationVotes := (moderationVotes s)(postId := vote\<lparr>executed := True\<rparr>)\<rparr>;
            pid = proposalId vote;
            proposal = proposals s1 pid
        in (case checked_add (forVotes proposal) (againstVotes proposal) of
              None \<Rightarrow> Inl Panic
            | Some totalVotes \<Rightarrow>
                let quorumReached = totalVotes > 0 in
                if quorumReached \<and> forVotes proposal > againstVotes proposal then
                  Inr (s1\<lparr>posts := (posts s1)(postId := (posts s1 postId)\<lparr>moderationStatus := Removed\<rparr>),
                          proposals := (proposals s1)(pid := proposal\<lparr>status := Executed\<rparr>)\<rparr>)
                else
                  Inr (s1\<lparr>posts := (posts s1)(postId := (posts s1 postId)\<lparr>moderationStatus := NoneStatus\<rparr>),
                          proposals := (proposals s1)(pid := proposal\<lparr>status := Rejected\<rparr>)\<rparr>)))"

definition createProposal ::
  "env \<Rightarrow> ProposalType \<Rightarrow> bytes \<Rightarrow> string \<Rightarrow> state \<Rightarrow> error + (uint256 \<times> state)" where
  "createProposal e ptype pdata dhash s =
     (if \<not> registrationTime (users s (msg_sender e)) > 0 then Inl (Revert ''User not registered'')
      else
        let pid = proposalIdCounter s in
        (case checked_add (block_timestamp e) (voteDuration s) of
           None \<Rightarrow> Inl Panic
         | Some deadline \<Rightarrow>
             Inr (pid,
                  s\<lparr>proposalIdCounter := proposalIdCounter s + 1,
                    proposals := (proposals s)(pid :=
                       \<lparr>proposal_id = pid, proposer = msg_sender e, proposalType = ptype,
                        data = pdata, startTime = block_timestamp e, endTime = deadline,
                        forVotes = 0, againstVotes = 0, status = Active,
                        descriptionHash = dhash\<rparr>)\<rparr>)))"

text \<open>
  The effect of a passing proposal, by kind. The parameter name is compared by its hash
  in the source; the model compares the names themselves. There is no branch for
  \<open>RemoveContent\<close>.
\<close>

definition applyProposal :: "Proposal \<Rightarrow> state \<Rightarrow> error + state" where
  "applyProposal proposal s =
     (if proposalType proposal = UpdateParameters then
        (case abi_decode_string_uint256 (data proposal) of
           None \<Rightarrow> Inl DecodeFailure
         | Some (paramName, newValue) \<Rightarrow>
             if paramName = ''flagThreshold'' then Inr (s\<lparr>flagThreshold := newValue\<rparr>)
             else if paramName = ''voteDuration'' then Inr (s\<lparr>voteDuration := newValue\<rparr>)
             else if paramName = ''quorumPercentage'' then Inr (s\<lparr>quorumPercentage := newValue\<rparr>)
             else Inr s)
      else if proposalType proposal = GrantRole then
        (case abi_decode_bytes32_address (data proposal) of
           None \<Rightarrow> Inl DecodeFailure
         | Some (role, account) \<Rightarrow> Inr (grantRole_internal role account s))
      else if proposalType proposal = RevokeRole then
        (case abi_decode_bytes32_address (data proposal) of
           None \<Rightarrow> Inl DecodeFailure
         | Some (role, account) \<Rightarrow> Inr (revokeRole_internal role account s))
      else Inr s)"

definition executeProposal :: "env \<Rightarrow> uint256 \<Rightarrow> state \<Rightarrow> error + state" where
  "executeProposal e pid s =
     (let proposal = proposals s pid in
      if proposal_id proposal \<noteq> pid then Inl (Revert ''Proposal does not exist'')
      else if status proposal \<noteq> Active then Inl (Revert ''Proposal not active'')
      else if \<not> block_timestamp e \<ge> endTime proposal then Inl (Revert ''Voting period not ended'')
      else
        (case checked_add (forVotes proposal) (againstVotes proposal) of
           None \<Rightarrow> Inl Panic
         | Some totalVotes \<Rightarrow>
             let quorumReached = totalVotes > 0 in
             if quorumReached \<and> forVotes proposal > againstVotes proposal then
               (case applyProposal proposal s of
                  Inl err \<Rightarrow> Inl err
                | Inr s1 \<Rightarrow>
                    Inr (s1\<lparr>proposals := (proposals s1)(pid := (proposals s1 pid)\<lparr>status := Executed\<rparr>)\<rparr>))
             else
               Inr (s\<lparr>proposals := (proposals s)(pid := proposal\<lparr>status := Rejected\<rparr>)\<rparr>)))"

text \<open>
  The loop of \<open>followUser\<close>: \<open>for (i = 0; i < followingList.length; i++)\<close>, leaving with
  \<open>True\<close> at the first index that holds the target (where the source reverts).
\<close>

function alreadyFollowing :: "address list \<Rightarrow> address \<Rightarrow> nat \<Rightarrow> bool" where
  "alreadyFollowing followingList userToFollow i =
     (if i < length followingList then
        (if followingList ! i = userToFollow then True
         else alreadyFollowing followingList userToFollow (i + 1))
      else False)"
  by pat_completeness auto
termination
  by (relation "measure (\<lambda>(followingList, userToFollow, i). length followingList - i)") auto

declare alreadyFollowing.simps [simp del]

definition followUser :: "env \<Rightarrow> address \<Rightarrow> state \<Rightarrow> error + state" where
  "followUser e userToFollow s =
     (if userToFollow = msg_sender e then Inl (Revert ''Cannot follow yourself'')
      else if \<not> registrationTime (users s userToFollow) > 0 then Inl (Revert ''User to follow does not exist'')
      else if \<not> registrationTime (users s (msg_sender e)) > 0 then Inl (Revert ''User not registered'')
      else if alreadyFollowing (following s (msg_sender e)) userToFollow 0
        then Inl (Revert ''Already following this user'')
      else Inr (s\<lparr>following := (following s)(msg_sender e := following s (msg_sender e) @ [userToFollow])\<rparr>))"

section \<open>Transactions and reachable states\<close>

datatype call =
    Call_registerUser string string UserType
  | Call_verifyUser address
  | Call_createPost string string string
  | Call_likePost uint256
  | Call_unlikePost uint256
  | Call_addComment uint256 string
  | Call_flagContent uint256
  | Call_startModerationVote uint256
  | Call_castModerationVote uint256 bool uint256
  | Call_executeModerationVote uint256
  | Call_createProposal ProposalType bytes string
  | Call_executeProposal uint256
  | Call_followUser address
  | Call_grantRole bytes32 address
  | Call_revokeRole bytes32 address
  | Call_renounceRole bytes32 address

fun exec :: "env \<Rightarrow> call \<Rightarrow> state \<Rightarrow> error + state" where
  "exec e (Call_registerUser u m t) s = registerUser e u m t s"
| "exec e (Call_verifyUser a) s = verifyUser e a s"
| "exec e (Call_createPost c m g) s = map_sum id snd (createPost e c m g s)"
| "exec e (Call_likePost p) s = likePost e p s"
| "exec e (Call_unlikePost p) s = unlikePost e p s"
| "exec e (Call_addComment p c) s = map_sum id snd (addComment e p c s)"
| "exec e (Call_flagContent p) s = flagContent e p s"
| "exec e (Call_startModerationVote p) s = startModerationVote e p s"
| "exec e (Call_castModerationVote q b w) s = castModerationVote e q b w s"
| "exec e (Call_executeModerationVote p) s = executeModerationVote e p s"
| "exec e (Call_createProposal t d h) s = map_sum id snd (createProposal e t d h s)"
| "exec e (Call_executeProposal q) s = executeProposal e q s"
| "exec e (Call_followUser a) s = followUser e a s"
| "exec e (Call_grantRole r a) s = grantRole e r a s"
| "exec e (Call_revokeRole r a) s = revokeRole e r a s"
| "exec e (Call_renounceRole r a) s = renounceRole e r a s"

text \<open>
  A sequence of transactions, each with its own sender and timestamp; it stops at the
  first one that reverts.
\<close>

fun run :: "(env \<times> call) list \<Rightarrow> state \<Rightarrow> error + state" where
  "run [] s = Inr s"
| "run ((e, c) # rest) s = (case exec e c s of Inl err \<Rightarrow> Inl err | Inr s' \<Rightarrow> run rest s')"

text \<open>The states the contract can be in: those after the constructor and any successful calls.\<close>

inductive reachable :: "state \<Rightarrow> bool" where
  reachable_init: "reachable (init deployer)"
| reachable_step: "reachable s \<Longrightarrow> exec e c s = Inr s' \<Longrightarrow> reachable s'"

section \<open>Concrete histories\<close>

text \<open>
  A few transaction histories from the constructor on, used below to run the contract on
  concrete inputs. \<open>after h\<close> is the state after the history \<open>h\<close> (the state after the
  constructor when a call of \<open>h\<close> reverts).
\<close>

definition deployer :: address where "deployer = 9"
definition alice :: address where "alice = 1"
definition bob :: address where "bob = 2"
definition moderator :: address where "moderator = 3"

definition ctx :: "address \<Rightarrow> uint256 \<Rightarrow> env" where
  "ctx a t = \<lparr>msg_sender = a, block_timestamp = t\<rparr>"

definition after :: "(env \<times> call) list \<Rightarrow> state" where
  "after h = (case run h (init deployer) of Inr s \<Rightarrow> s | Inl _ \<Rightarrow> init deployer)"

text \<open>
  The deployer makes \<open>moderator\<close> a moderator, \<open>alice\<close> and \<open>bob\<close> register, \<open>alice\<close>
  publishes posts 0 and 1, \<open>bob\<close> flags post 1 and the moderator opens the vote on it at
  time 100: proposal 0, of kind \<open>RemoveContent\<close>, with deadline \<open>100 + 259200\<close>.
\<close>

definition history_vote_open :: "(env \<times> call) list" where
  "history_vote_open =
     [(ctx deployer 100, Call_grantRole MODERATOR_ROLE moderator),
      (ctx alice 100, Call_registerUser ''alice'' [] Journalist),
      (ctx bob 100, Call_registerUser ''bob'' [] Individual),
      (ctx alice 100, Call_createPost ''ref0'' [] ''news''),
      (ctx alice 100, Call_createPost ''ref1'' [] ''news''),
      (ctx bob 100, Call_flagContent 1),
      (ctx moderator 100, Call_startModerationVote 1)]"

text \<open>\<open>alice\<close> votes for removal with weight 60; nobody votes against.\<close>

definition history_passing :: "(env \<times> call) list" where
  "history_passing = history_vote_open @ [(ctx alice 200, Call_castModerationVote 0 True 60)]"

text \<open>Then \<open>bob\<close> runs \<open>executeProposal 0\<close> at the deadline.\<close>

definition history_passing_executed :: "(env \<times> call) list" where
  "history_passing_executed = history_passing @ [(ctx bob 259300, Call_executeProposal 0)]"

text \<open>Scenario D of the spec: 100 against, 60 for.\<close>

definition history_failing :: "(env \<times> call) list" where
  "history_failing = history_vote_open @
     [(ctx alice 200, Call_castModerationVote 0 False 100),
      (ctx bob 200, Call_castModerationVote 0 True 60)]"

text \<open>Two votes of weight \<open>2^255\<close> each, one for and one against.\<close>

definition history_huge_weights :: "(env \<times> call) list" where
  "history_huge_weights = history_vote_open @
     [(ctx alice 200, Call_castModerationVote 0 True (2 ^ 255)),
      (ctx bob 200, Call_castModerationVote 0 False (2 ^ 255))]"

text \<open>
  While the vote on post 1 is open, \<open>bob\<close> creates a second \<open>RemoveContent\<close> proposal
  (proposal 1) whose payload names post 1 as well, and votes for it with weight 5.
\<close>

definition history_second_proposal :: "(env \<times> call) list" where
  "history_second_proposal = history_vote_open @
     [(ctx bob 200, Call_createProposal RemoveContent (abi_encode_uint256 1) []),
      (ctx bob 200, Call_castModerationVote 1 True 5)]"

text \<open>
  No moderation vote is ever started: \<open>alice\<close> registers, publishes post 0, creates a
  \<open>GrantRole\<close> proposal (proposal 0) and votes for it.
\<close>

definition history_no_vote :: "(env \<times> call) list" where
  "history_no_vote =
     [(ctx alice 100, Call_registerUser ''alice'' [] Journalist),
      (ctx alice 100, Call_createPost ''ref0'' [] ''news''),
      (ctx alice 100, Call_createProposal GrantRole [] []),
      (ctx alice 100, Call_castModerationVote 0 True 1)]"

text \<open>An \<open>UpdateParameters\<close> proposal with an empty payload, voted for by \<open>alice\<close>.\<close>

definition history_empty_payload :: "(env \<times> call) list" where
  "history_empty_payload =
     [(ctx alice 100, Call_registerUser ''alice'' [] Journalist),
      (ctx alice 100, Call_createProposal UpdateParameters [] []),
      (ctx alice 100, Call_castModerationVote 0 True 1)]"

text \<open>
  Scenario E of the spec: a \<open>GrantRole\<close> proposal for \<open>MODERATOR_ROLE\<close> and \<open>bob\<close>
  (proposal 0, deadline \<open>100 + 259200\<close>), then \<open>alice\<close> votes for it with weight 100.
\<close>

definition history_grant_open :: "(env \<times> call) list" where
  "history_grant_open =
     [(ctx alice 100, Call_registerUser ''alice'' [] Journalist),
      (ctx alice 100, Call_createProposal GrantRole (abi_encode_bytes32_address MODERATOR_ROLE bob) [])]"

definition history_grant :: "(env \<times> call) list" where
  "history_grant = history_grant_open @ [(ctx alice 100, Call_castModerationVote 0 True 100)]"

text \<open>
  An \<open>UpdateParameters\<close> proposal that sets \<open>voteDuration\<close> to 600, and a \<open>RevokeRole\<close>
  proposal that takes \<open>ADMIN_ROLE\<close> from the deployer, each voted for by \<open>alice\<close>.
\<close>

definition history_update :: "(env \<times> call) list" where
  "history_update =
     [(ctx alice 100, Call_registerUser ''alice'' [] Journalist),
      (ctx alice 100, Call_createProposal UpdateParameters
                        (abi_encode_string_uint256 ''voteDuration'' 600) []),
      (ctx alice 100, Call_castModerationVote 0 True 1)]"

definition history_revoke :: "(env \<times> call) list" where
  "history_revoke =
     [(ctx alice 100, Call_registerUser ''alice'' [] Journalist),
      (ctx alice 100, Call_createProposal RevokeRole
                        (abi_encode_bytes32_address ADMIN_ROLE deployer) []),
      (ctx alice 100, Call_castModerationVote 0 True 1)]"

text \<open>\<open>alice\<close> and \<open>bob\<close> register, \<open>alice\<close> publishes post 0, likes it and follows \<open>bob\<close>.\<close>

definition history_social :: "(env \<times> call) list" where
  "history_social =
     [(ctx alice 100, Call_registerUser ''alice'' [] Journalist),
      (ctx bob 100, Call_registerUser ''bob'' [] Individual),
      (ctx alice 100, Call_createPost ''ref0'' [] ''news''),
      (ctx alice 100, Call_likePost 0),
      (ctx alice 100, Call_followUser bob)]"

section \<open>Invariants\<close>

text \<open>Nobody follows themselves, and nobody is followed twice by the same user.\<close>

definition following_clean :: "state \<Rightarrow> bool" where
  "following_clean s = (\<forall>u. u \<notin> set (following s u) \<and> distinct (following s u))"

text \<open>
  The like counter of every post is the number of addresses whose like record is set, and
  ids that have not been allocated yet hold no post and no like.
\<close>

definition likes_consistent :: "state \<Rightarrow> bool" where
  "likes_consistent s =
     ((\<forall>p. finite {a. postLikes s p a} \<and> likes (posts s p) = card {a. postLikes s p a})
      \<and> (\<forall>p. postIdCounter s \<le> p \<longrightarrow> author (posts s p) = 0 \<and> (\<forall>a. \<not> postLikes s p a)))"

text \<open>
  The payload of a proposal decodes as its kind needs it (nothing is decoded for
  \<open>RemoveContent\<close>), the condition under which \<open>applyProposal\<close> does not revert.
\<close>

definition payload_decodes :: "Proposal \<Rightarrow> bool" where
  "payload_decodes proposal =
     (case proposalType proposal of
        UpdateParameters \<Rightarrow> abi_decode_string_uint256 (data proposal) \<noteq> None
      | GrantRole \<Rightarrow> abi_decode_bytes32_address (data proposal) \<noteq> None
      | RevokeRole \<Rightarrow> abi_decode_bytes32_address (data proposal) \<noteq> None
      | RemoveContent \<Rightarrow> True)"

text \<open>Proposal \<open>q\<close> has been created and has left the \<open>Active\<close> state.\<close>

definition closed_proposal :: "uint256 \<Rightarrow> state \<Rightarrow> bool" where
  "closed_proposal q s =
     (proposal_id (proposals s q) = q \<and> status (proposals s q) \<noteq> Active \<and> q < proposalIdCounter s)"

text \<open>The moderation vote of post \<open>p\<close> exists and has been executed.\<close>

definition executed_vote :: "uint256 \<Rightarrow> state \<Rightarrow> bool" where
  "executed_vote p s = (vote_postId (moderationVotes s p) = p \<and> executed (moderationVotes s p))"

section \<open>Evaluation and reachability\<close>

text \<open>The definitions to unfold when a call is run on a concrete state.\<close>

lemmas op_defs = registerUser_def verifyUser_def createPost_def likePost_def unlikePost_def
  addComment_def flagContent_def startModerationVote_def castVote_record_def castVote_tally_def
  castModerationVote_def executeModerationVote_def createProposal_def applyProposal_def
  executeProposal_def followUser_def grantRole_def revokeRole_def renounceRole_def
  grantRole_internal_def revokeRole_internal_def

lemmas arith_defs = checked_add_def checked_sub_def UINT256_MAX_def

lemmas abi_defs = abi_decode_uint256_def abi_encode_uint256_def abi_word_def be_nat_def
  abi_decode_bytes32_address_def abi_encode_bytes32_address_def abi_decode_string_uint256_def upt_rec

lemmas actor_defs = deployer_def alice_def bob_def moderator_def ctx_def
  DEFAULT_ADMIN_ROLE_def ADMIN_ROLE_def MODERATOR_ROLE_def

lemmas zero_defs = zero_UserProfile_def zero_NewsPost_def zero_Proposal_def zero_ModerationVote_def

lemmas eval_defs = after_def init_def op_defs arith_defs abi_defs actor_defs zero_defs Let_def

text \<open>
  A history run in two parts, and the states it passes through: every state after a
  history is reachable.
\<close>

lemma run_append:
  "run (h1 @ h2) s = (case run h1 s of Inl err \<Rightarrow> Inl err | Inr s' \<Rightarrow> run h2 s')"
  by (induction h1 arbitrary: s) (auto split: sum.splits)

lemma run_reachable: "reachable s \<Longrightarrow> run h s = Inr s' \<Longrightarrow> reachable s'"
proof (induction h arbitrary: s)
  case Nil
  then show ?case by simp
next
  case (Cons x h)
  obtain e c where x: "x = (e, c)" by (cases x)
  from Cons.prems(2) obtain s1 where s1: "exec e c s = Inr s1" and r: "run h s1 = Inr s'"
    by (auto simp: x split: sum.splits)
  from Cons.prems(1) s1 have "reachable s1" by (rule reachable_step)
  then show ?case using r by (rule Cons.IH)
qed

lemma reachable_after: "reachable (after h)"
proof (cases "run h (init deployer)")
  case (Inl err)
  then show ?thesis by (simp add: after_def reachable_init)
next
  case (Inr s)
  then show ?thesis using run_reachable [OF reachable_init Inr] by (simp add: after_def)
qed


section \<open>The follow relation\<close>

text \<open>Only \<open>followUser\<close> writes a following list.\<close>

lemma castVote_tally_following:
  "castVote_tally q b w s = Inr s' \<Longrightarrow> following s' = following s"
  by (auto simp: castVote_tally_def Let_def split: if_splits option.splits)

lemma applyProposal_following:
  "applyProposal p s = Inr s' \<Longrightarrow> following s' = following s"
  by (auto simp: applyProposal_def grantRole_internal_def revokeRole_internal_def
           split: if_splits option.splits prod.splits)

lemma exec_following:
  assumes "exec e c s = Inr s'"
  shows "following s' = following s \<or> (\<exists>t. c = Call_followUser t)"
proof (cases c)
  case (Call_castModerationVote q b w)
  then show ?thesis
    using castVote_tally_following assms
    by (auto simp: castModerationVote_def castVote_record_def split: if_splits sum.splits)
next
  case (Call_executeProposal q)
  then show ?thesis
    using applyProposal_following assms
    by (auto simp: executeProposal_def Let_def split: if_splits option.splits sum.splits)
qed (use assms in \<open>auto simp: registerUser_def verifyUser_def createPost_def likePost_def unlikePost_def
  addComment_def flagContent_def startModerationVote_def executeModerationVote_def createProposal_def 
  grantRole_def revokeRole_def renounceRole_def
  grantRole_internal_def revokeRole_internal_def Let_def split: if_splits option.splits\<close>)


text \<open>The loop finds the target exactly when it is in the list from index \<open>i\<close> on.\<close>

lemma alreadyFollowing_iff:
  "alreadyFollowing xs t i = (t \<in> set (drop i xs))"
proof (induction xs t i rule: alreadyFollowing.induct)
  case (1 xs t i)
  show ?case
  proof (cases "i < length xs")
    case True
    then have d: "drop i xs = xs ! i # drop (i + 1) xs"
      by (simp add: Cons_nth_drop_Suc)
    show ?thesis
      using True 1 by (subst alreadyFollowing.simps) (auto simp: d)
  next
    case False
    then show ?thesis by (subst alreadyFollowing.simps) simp
  qed
qed

lemma followUser_clean:
  assumes "followUser e t s = Inr s'" and "following_clean s"
  shows "following_clean s'"
proof -
  from assms(1) have ne: "t \<noteq> msg_sender e"
    and nf: "t \<notin> set (following s (msg_sender e))"
    and s': "s' = s\<lparr>following := (following s)(msg_sender e := following s (msg_sender e) @ [t])\<rparr>"
    by (simp_all add: followUser_def alreadyFollowing_iff split: if_splits)
  show ?thesis
    unfolding following_clean_def
  proof
    fix u
    show "u \<notin> set (following s' u) \<and> distinct (following s' u)"
      using assms(2) ne nf by (cases "u = msg_sender e") (auto simp: s' following_clean_def)
  qed
qed


lemma exec_following_clean:
  assumes "exec e c s = Inr s'" and "following_clean s"
  shows "following_clean s'"
proof (cases "\<exists>t. c = Call_followUser t")
  case True
  then obtain t where c: "c = Call_followUser t" by blast
  from assms(1) have "followUser e t s = Inr s'" by (simp add: c)
  then show ?thesis using assms(2) by (rule followUser_clean)
next
  case False
  with exec_following [OF assms(1)] have "following s' = following s" by simp
  with assms(2) show ?thesis by (simp add: following_clean_def)
qed

lemma reachable_following_clean: "reachable s \<Longrightarrow> following_clean s"
proof (induction rule: reachable.induct)
  case (reachable_init d)
  show ?case by (simp add: following_clean_def init_def grantRole_internal_def)
next
  case (reachable_step s e c s')
  from reachable_step.hyps(2) reachable_step.IH show ?case by (rule exec_following_clean)
qed

text \<open>
  Claim C9. In every reachable state no user follows themselves and no following list
  holds an address twice. \<open>followUser\<close> reverts, leaving the state as it was, when the
  caller or the target is not registered, when the target is the caller, and when the
  target is already in the caller's list; otherwise it appends the target, once, to the
  caller's list and changes nothing else.
\<close>

theorem followUser_contract:
  assumes "reachable s"
  shows "(\<forall>u. u \<notin> set (following s u) \<and> distinct (following s u))
       \<and> (\<forall>e t. (registrationTime (users s (msg_sender e)) = 0 \<or> registrationTime (users s t) = 0
                  \<or> t = msg_sender e \<or> t \<in> set (following s (msg_sender e)))
             \<longrightarrow> (\<exists>err. followUser e t s = Inl err))
       \<and> (\<forall>e t. registrationTime (users s (msg_sender e)) \<noteq> 0 \<and> registrationTime (users s t) \<noteq> 0
                  \<and> t \<noteq> msg_sender e \<and> t \<notin> set (following s (msg_sender e))
             \<longrightarrow> followUser e t s =
                   Inr (s\<lparr>following := (following s)(msg_sender e := following s (msg_sender e) @ [t])\<rparr>))"
proof -
  have inv: "\<forall>u. u \<notin> set (following s u) \<and> distinct (following s u)"
    using reachable_following_clean [OF assms] by (simp add: following_clean_def)
  have fails: "\<forall>e t. (registrationTime (users s (msg_sender e)) = 0 \<or> registrationTime (users s t) = 0
                  \<or> t = msg_sender e \<or> t \<in> set (following s (msg_sender e)))
             \<longrightarrow> (\<exists>err. followUser e t s = Inl err)"
    by (simp add: followUser_def alreadyFollowing_iff)
  have appends: "\<forall>e t. registrationTime (users s (msg_sender e)) \<noteq> 0 \<and> registrationTime (users s t) \<noteq> 0
                  \<and> t \<noteq> msg_sender e \<and> t \<notin> set (following s (msg_sender e))
             \<longrightarrow> followUser e t s =
                   Inr (s\<lparr>following := (following s)(msg_sender e := following s (msg_sender e) @ [t])\<rparr>)"
    by (simp add: followUser_def alreadyFollowing_iff)
  from inv fails appends show ?thesis by blast
qed

text \<open>
  Claim C9 on a reachable state: after \<open>history_social\<close>, \<open>alice\<close> follows \<open>bob\<close>; she
  cannot follow him again, and \<open>bob\<close> can follow her.
\<close>

theorem followUser_contract_witness:
  "reachable (after history_social)
   \<and> alice \<notin> set (following (after history_social) alice)
   \<and> distinct (following (after history_social) alice)
   \<and> bob \<in> set (following (after history_social) alice)
   \<and> (\<exists>err. followUser (ctx alice 100) bob (after history_social) = Inl err)
   \<and> followUser (ctx bob 100) alice (after history_social) =
       Inr ((after history_social)\<lparr>following := (following (after history_social))
              (bob := following (after history_social) bob @ [alice])\<rparr>)"
proof -
  have r: "reachable (after history_social)" by (rule reachable_after)
  have f: "following (after history_social) alice = [bob]"
    and g: "following (after history_social) bob = []"
    and u: "registrationTime (users (after history_social) alice) = 100"
           "registrationTime (users (after history_social) bob) = 100"
    by (simp_all add: history_social_def eval_defs alreadyFollowing_iff)
  have ab: "alice \<noteq> bob" by (simp add: alice_def bob_def)
  from followUser_contract [OF r] have
    1: "alice \<notin> set (following (after history_social) alice) \<and> distinct (following (after history_social) alice)"
    by blast
  from followUser_contract [OF r] have
    "(registrationTime (users (after history_social) (msg_sender (ctx alice 100))) = 0
        \<or> registrationTime (users (after history_social) bob) = 0
        \<or> bob = msg_sender (ctx alice 100)
        \<or> bob \<in> set (following (after history_social) (msg_sender (ctx alice 100))))
      \<longrightarrow> (\<exists>err. followUser (ctx alice 100) bob (after history_social) = Inl err)"
    by blast
  then have 2: "\<exists>err. followUser (ctx alice 100) bob (after history_social) = Inl err"
    by (simp add: f ctx_def)
  from followUser_contract [OF r] have
    "registrationTime (users (after history_social) (msg_sender (ctx bob 100))) \<noteq> 0
       \<and> registrationTime (users (after history_social) alice) \<noteq> 0
       \<and> alice \<noteq> msg_sender (ctx bob 100)
       \<and> alice \<notin> set (following (after history_social) (msg_sender (ctx bob 100)))
      \<longrightarrow> followUser (ctx bob 100) alice (after history_social) =
           Inr ((after history_social)\<lparr>following := (following (after history_social))
                  (msg_sender (ctx bob 100) := following (after history_social) (msg_sender (ctx bob 100)) @ [alice])\<rparr>)"
    by blast
  then have 3: "followUser (ctx bob 100) alice (after history_social) =
       Inr ((after history_social)\<lparr>following := (following (after history_social))
              (bob := following (after history_social) bob @ [alice])\<rparr>)"
    using ab by (simp add: g u ctx_def)
  from r 1 2 3 f show ?thesis by simp
qed

section \<open>Casting a vote\<close>

text \<open>
  Claim C10. A successful vote on a proposal whose kind is not \<open>RemoveContent\<close> changes
  the has-voted record of the proposal and the caller and the for- or against-weight of
  that proposal, and nothing else: posts, moderation votes, user profiles, parameters,
  roles and every other proposal are those of the state before.
\<close>

theorem castModerationVote_frame:
  assumes "castModerationVote e pid support w s = Inr s'"
      and "proposalType (proposals s pid) \<noteq> RemoveContent"
  shows "s' = s\<lparr>hasVoted := (hasVoted s)(pid := (hasVoted s pid)(msg_sender e := True)),
                 proposals := (proposals s)(pid :=
                    (if support
                     then (proposals s pid)\<lparr>forVotes := forVotes (proposals s pid) + w\<rparr>
                     else (proposals s pid)\<lparr>againstVotes := againstVotes (proposals s pid) + w\<rparr>))\<rparr>"
  using assms
  by (auto simp: castModerationVote_def castVote_record_def castVote_tally_def checked_add_def Let_def
           split: if_splits option.splits sum.splits)

text \<open>Claim C10 on the vote of \<open>alice\<close> for the \<open>GrantRole\<close> proposal of \<open>history_grant\<close>.\<close>

theorem castModerationVote_frame_witness:
  "castModerationVote (ctx alice 100) 0 True 100 (after history_grant_open) = Inr (after history_grant)
   \<and> proposalType (proposals (after history_grant_open) 0) \<noteq> RemoveContent
   \<and> after history_grant =
       (after history_grant_open)\<lparr>
          hasVoted := (hasVoted (after history_grant_open))
             (0 := (hasVoted (after history_grant_open) 0)(alice := True)),
          proposals := (proposals (after history_grant_open))
             (0 := (proposals (after history_grant_open) 0)
                     \<lparr>forVotes := forVotes (proposals (after history_grant_open) 0) + 100\<rparr>)\<rparr>"
proof -
  have h1: "castModerationVote (ctx alice 100) 0 True 100 (after history_grant_open)
              = Inr (after history_grant)"
    by (simp add: history_grant_def history_grant_open_def eval_defs)
  have h2: "proposalType (proposals (after history_grant_open) 0) \<noteq> RemoveContent"
    by (simp add: history_grant_open_def eval_defs)
  from castModerationVote_frame [OF h1 h2] h1 h2 show ?thesis by (simp add: ctx_def)
qed

section \<open>What the parts of a call leave unchanged\<close>

text \<open>
  The weight updates touch proposals and moderation votes only; the effect of a passing
  proposal touches parameters and roles only.
\<close>

lemma castVote_tally_frame:
  "castVote_tally q b w s = Inr s' \<Longrightarrow>
     users s' = users s \<and> posts s' = posts s \<and> postComments s' = postComments s
     \<and> userPosts s' = userPosts s \<and> following s' = following s \<and> postLikes s' = postLikes s
     \<and> hasVoted s' = hasVoted s \<and> flagThreshold s' = flagThreshold s
     \<and> voteDuration s' = voteDuration s \<and> quorumPercentage s' = quorumPercentage s
     \<and> postIdCounter s' = postIdCounter s \<and> commentIdCounter s' = commentIdCounter s
     \<and> proposalIdCounter s' = proposalIdCounter s \<and> roles s' = roles s"
  by (auto simp: castVote_tally_def Let_def split: if_splits option.splits)

lemma applyProposal_frame:
  "applyProposal p s = Inr s' \<Longrightarrow>
     users s' = users s \<and> posts s' = posts s \<and> postComments s' = postComments s
     \<and> userPosts s' = userPosts s \<and> following s' = following s \<and> postLikes s' = postLikes s
     \<and> proposals s' = proposals s \<and> hasVoted s' = hasVoted s
     \<and> moderationVotes s' = moderationVotes s
     \<and> postIdCounter s' = postIdCounter s \<and> commentIdCounter s' = commentIdCounter s
     \<and> proposalIdCounter s' = proposalIdCounter s"
  by (auto simp: applyProposal_def grantRole_internal_def revokeRole_internal_def
           split: if_splits option.splits prod.splits)

section \<open>Likes\<close>

text \<open>
  Apart from \<open>createPost\<close>, \<open>likePost\<close> and \<open>unlikePost\<close>, no call changes a like record,
  a like counter, an author or the post counter.
\<close>

lemma exec_likes_frame:
  assumes "exec e c s = Inr s'"
  shows "(postLikes s' = postLikes s \<and> postIdCounter s' = postIdCounter s
           \<and> (\<forall>p. likes (posts s' p) = likes (posts s p) \<and> author (posts s' p) = author (posts s p)))
         \<or> (\<exists>x y z. c = Call_createPost x y z) \<or> (\<exists>p. c = Call_likePost p)
         \<or> (\<exists>p. c = Call_unlikePost p)"
proof (cases c)
  case (Call_castModerationVote q b w)
  from assms obtain s1 where "castVote_record e q s = Inr s1" and "castVote_tally q b w s1 = Inr s'"
    by (auto simp: Call_castModerationVote castModerationVote_def split: sum.splits)
  then show ?thesis
    using castVote_tally_frame [of q b w s1 s']
    by (auto simp: castVote_record_def split: if_splits)
next
  case (Call_executeProposal q)
  then show ?thesis
    using assms
    by (auto simp: executeProposal_def Let_def split: if_splits option.splits sum.splits
             dest!: applyProposal_frame)
qed (use assms in \<open>auto simp: registerUser_def verifyUser_def
  addComment_def flagContent_def startModerationVote_def executeModerationVote_def createProposal_def 
  grantRole_def revokeRole_def renounceRole_def followUser_def
  grantRole_internal_def revokeRole_internal_def Let_def split: if_splits option.splits\<close>)

lemma likes_frame_consistent:
  assumes "postLikes s' = postLikes s" and "postIdCounter s' = postIdCounter s"
    and "\<forall>p. likes (posts s' p) = likes (posts s p) \<and> author (posts s' p) = author (posts s p)"
    and "likes_consistent s"
  shows "likes_consistent s'"
  using assms by (simp add: likes_consistent_def)

lemma likers_insert: "{a'. (f(a := True)) a'} = insert a {a'. f a'}"
  by auto

lemma likers_remove: "{a'. (f(a := False)) a'} = {a'. f a'} - {a}"
  by auto

lemma likePost_consistent:
  assumes "likePost e p s = Inr s'" and "likes_consistent s"
  shows "likes_consistent s'"
proof -
  let ?a = "msg_sender e"
  from assms(1) have ex: "author (posts s p) \<noteq> 0" and nl: "\<not> postLikes s p ?a"
    and s': "s' = s\<lparr>postLikes := (postLikes s)(p := (postLikes s p)(?a := True)),
                    posts := (posts s)(p := (posts s p)\<lparr>likes := likes (posts s p) + 1\<rparr>)\<rparr>"
    by (auto simp: likePost_def checked_add_def split: if_splits option.splits)
  from assms(2) have "postIdCounter s \<le> p \<Longrightarrow> author (posts s p) = 0"
    by (simp add: likes_consistent_def)
  with ex have lt: "p < postIdCounter s"
    by (cases "p < postIdCounter s") auto
  from assms(2) have fin: "finite {a. postLikes s p a}"
    and cnt: "likes (posts s p) = card {a. postLikes s p a}"
    by (simp_all add: likes_consistent_def)
  have 1: "finite {a. postLikes s' q a} \<and> likes (posts s' q) = card {a. postLikes s' q a}" for q
  proof (cases "q = p")
    case True
    have "postLikes s' p = (postLikes s p)(?a := True)" by (simp add: s')
    then have "{a. postLikes s' p a} = insert ?a {a. postLikes s p a}"
      by (simp only: likers_insert)
    moreover have "likes (posts s' p) = likes (posts s p) + 1" by (simp add: s')
    ultimately show ?thesis using True fin cnt nl by simp
  next
    case False
    then show ?thesis using assms(2) by (simp add: s' likes_consistent_def)
  qed
  have 2: "author (posts s' q) = 0 \<and> (\<forall>a. \<not> postLikes s' q a)" if "postIdCounter s' \<le> q" for q
    using that assms(2) lt by (auto simp: s' likes_consistent_def)
  from 1 2 show ?thesis by (simp add: likes_consistent_def)
qed

lemma unlikePost_consistent:
  assumes "unlikePost e p s = Inr s'" and "likes_consistent s"
  shows "likes_consistent s'"
proof -
  let ?a = "msg_sender e"
  from assms(1) have ex: "author (posts s p) \<noteq> 0" and li: "postLikes s p ?a"
    and s': "s' = s\<lparr>postLikes := (postLikes s)(p := (postLikes s p)(?a := False)),
                    posts := (posts s)(p := (posts s p)\<lparr>likes := likes (posts s p) - 1\<rparr>)\<rparr>"
    by (auto simp: unlikePost_def checked_sub_def split: if_splits option.splits)
  from assms(2) have "postIdCounter s \<le> p \<Longrightarrow> author (posts s p) = 0"
    by (simp add: likes_consistent_def)
  with ex have lt: "p < postIdCounter s"
    by (cases "p < postIdCounter s") auto
  from assms(2) have fin: "finite {a. postLikes s p a}"
    and cnt: "likes (posts s p) = card {a. postLikes s p a}"
    by (simp_all add: likes_consistent_def)
  have 1: "finite {a. postLikes s' q a} \<and> likes (posts s' q) = card {a. postLikes s' q a}" for q
  proof (cases "q = p")
    case True
    have "postLikes s' p = (postLikes s p)(?a := False)" by (simp add: s')
    then have "{a. postLikes s' p a} = {a. postLikes s p a} - {?a}"
      by (simp only: likers_remove)
    moreover have "likes (posts s' p) = likes (posts s p) - 1" by (simp add: s')
    ultimately show ?thesis using True fin cnt li by simp
  next
    case False
    then show ?thesis using assms(2) by (simp add: s' likes_consistent_def)
  qed
  have 2: "author (posts s' q) = 0 \<and> (\<forall>a. \<not> postLikes s' q a)" if "postIdCounter s' \<le> q" for q
    using that assms(2) lt by (auto simp: s' likes_consistent_def)
  from 1 2 show ?thesis by (simp add: likes_consistent_def)
qed

lemma createPost_consistent:
  assumes "createPost e x y z s = Inr (n, s')" and "likes_consistent s"
  shows "likes_consistent s'"
proof -
  from assms(1) have s': "s' = s\<lparr>postIdCounter := postIdCounter s + 1,
       posts := (posts s)(postIdCounter s :=
          \<lparr>post_id = postIdCounter s, author = msg_sender e, contentHash = x,
           post_metadataHash = y, timestamp = block_timestamp e, category = z,
           likes = 0, comments = 0, moderationStatus = NoneStatus\<rparr>),
       userPosts := (userPosts s)(msg_sender e := userPosts s (msg_sender e) @ [postIdCounter s])\<rparr>"
    by (auto simp: createPost_def Let_def split: if_splits)
  have 1: "finite {a. postLikes s' q a} \<and> likes (posts s' q) = card {a. postLikes s' q a}" for q
  proof (cases "q = postIdCounter s")
    case True
    with assms(2) have "{a. postLikes s q a} = {}" by (simp add: likes_consistent_def)
    then show ?thesis using True by (simp add: s')
  next
    case False
    then show ?thesis using assms(2) by (simp add: s' likes_consistent_def)
  qed
  have 2: "author (posts s' q) = 0 \<and> (\<forall>a. \<not> postLikes s' q a)" if "postIdCounter s' \<le> q" for q
    using that assms(2) by (auto simp: s' likes_consistent_def)
  from 1 2 show ?thesis by (simp add: likes_consistent_def)
qed

lemma exec_likes_consistent:
  assumes "exec e c s = Inr s'" and "likes_consistent s"
  shows "likes_consistent s'"
proof -
  consider (frame) "postLikes s' = postLikes s \<and> postIdCounter s' = postIdCounter s
           \<and> (\<forall>p. likes (posts s' p) = likes (posts s p) \<and> author (posts s' p) = author (posts s p))"
    | (create) x y z where "c = Call_createPost x y z"
    | (like) p where "c = Call_likePost p"
    | (unlike) p where "c = Call_unlikePost p"
    using exec_likes_frame [OF assms(1)] by blast
  then show ?thesis
  proof cases
    case frame
    then show ?thesis using assms(2) likes_frame_consistent by blast
  next
    case create
    with assms(1) obtain n where "createPost e x y z s = Inr (n, s')"
      by (cases "createPost e x y z s") auto
    then show ?thesis using assms(2) by (rule createPost_consistent)
  next
    case like
    with assms(1) have "likePost e p s = Inr s'" by simp
    then show ?thesis using assms(2) by (rule likePost_consistent)
  next
    case unlike
    with assms(1) have "unlikePost e p s = Inr s'" by simp
    then show ?thesis using assms(2) by (rule unlikePost_consistent)
  qed
qed

lemma reachable_likes_consistent: "reachable s \<Longrightarrow> likes_consistent s"
proof (induction rule: reachable.induct)
  case (reachable_init d)
  show ?case
    by (simp add: likes_consistent_def init_def grantRole_internal_def zero_NewsPost_def)
next
  case (reachable_step s e c s')
  from reachable_step.hyps(2) reachable_step.IH show ?case by (rule exec_likes_consistent)
qed


text \<open>
  Claim C8. In every reachable state the like counter of a post is the number of
  addresses whose like record for it is set. On an existing post (one whose author is
  not the zero address), \<open>likePost\<close> reverts with "Already liked this post" when the
  record of the caller is set, and \<open>unlikePost\<close> reverts with "Haven't liked this post"
  when it is not; when it is set the counter is positive and \<open>unlikePost\<close> succeeds, so the
  decrement never goes below zero; and a successful \<open>likePost\<close> followed by \<open>unlikePost\<close> of
  the same caller gives back the state before, with the same counter.
\<close>

theorem like_count_matches_records:
  assumes "reachable s"
  shows "finite {a. postLikes s p a} \<and> likes (posts s p) = card {a. postLikes s p a}
     \<and> (author (posts s p) \<noteq> 0 \<and> postLikes s p (msg_sender e)
          \<longrightarrow> likePost e p s = Inl (Revert ''Already liked this post''))
     \<and> (author (posts s p) \<noteq> 0 \<and> \<not> postLikes s p (msg_sender e)
          \<longrightarrow> unlikePost e p s = Inl (Revert ''Haven't liked this post''))
     \<and> (author (posts s p) \<noteq> 0 \<and> postLikes s p (msg_sender e)
          \<longrightarrow> 0 < likes (posts s p)
              \<and> (\<exists>s'. unlikePost e p s = Inr s' \<and> likes (posts s' p) = likes (posts s p) - 1))
     \<and> (\<forall>s1. likePost e p s = Inr s1
          \<longrightarrow> likes (posts s1 p) = likes (posts s p) + 1 \<and> unlikePost e p s1 = Inr s)"
proof -
  have inv: "likes_consistent s" using assms by (rule reachable_likes_consistent)
  then have fin: "finite {a. postLikes s p a}"
    and cnt: "likes (posts s p) = card {a. postLikes s p a}"
    by (simp_all add: likes_consistent_def)
  have already: "likePost e p s = Inl (Revert ''Already liked this post'')"
    if "author (posts s p) \<noteq> 0 \<and> postLikes s p (msg_sender e)"
    using that by (simp add: likePost_def)
  have notliked: "unlikePost e p s = Inl (Revert ''Haven't liked this post'')"
    if "author (posts s p) \<noteq> 0 \<and> \<not> postLikes s p (msg_sender e)"
    using that by (simp add: unlikePost_def)
  have nounderflow: "0 < likes (posts s p)
      \<and> (\<exists>s'. unlikePost e p s = Inr s' \<and> likes (posts s' p) = likes (posts s p) - 1)"
    if h: "author (posts s p) \<noteq> 0 \<and> postLikes s p (msg_sender e)"
  proof -
    from h have "msg_sender e \<in> {a. postLikes s p a}" by simp
    with fin have "0 < card {a. postLikes s p a}" by (auto simp: card_gt_0_iff)
    with cnt have pos: "0 < likes (posts s p)" by simp
    with h show ?thesis by (simp add: unlikePost_def checked_sub_def)
  qed
  have roundtrip: "likes (posts s1 p) = likes (posts s p) + 1 \<and> unlikePost e p s1 = Inr s"
    if l: "likePost e p s = Inr s1" for s1
  proof -
    from l have ex: "author (posts s p) \<noteq> 0" and nl: "\<not> postLikes s p (msg_sender e)"
      and s1: "s1 = s\<lparr>postLikes := (postLikes s)(p := (postLikes s p)(msg_sender e := True)),
                      posts := (posts s)(p := (posts s p)\<lparr>likes := likes (posts s p) + 1\<rparr>)\<rparr>"
      by (auto simp: likePost_def checked_add_def split: if_splits option.splits)
    from nl have "(postLikes s p)(msg_sender e := False) = postLikes s p"
      by (simp add: fun_upd_idem)
    then have "unlikePost e p s1 = Inr s"
      using ex by (simp add: s1 unlikePost_def checked_sub_def)
    then show ?thesis by (simp add: s1)
  qed
  from fin cnt already notliked nounderflow roundtrip show ?thesis by blast
qed

text \<open>
  Claim C8 on a reachable state: after \<open>history_social\<close> post 0 has one like, by \<open>alice\<close>.
\<close>

theorem like_count_matches_records_witness:
  "reachable (after history_social)
   \<and> likes (posts (after history_social) 0) = card {a. postLikes (after history_social) 0 a}
   \<and> likes (posts (after history_social) 0) = 1
   \<and> likePost (ctx alice 100) 0 (after history_social) = Inl (Revert ''Already liked this post'')
   \<and> unlikePost (ctx bob 100) 0 (after history_social) = Inl (Revert ''Haven't liked this post'')
   \<and> (\<exists>s'. unlikePost (ctx alice 100) 0 (after history_social) = Inr s' \<and> likes (posts s' 0) = 0)
   \<and> (\<exists>s1. likePost (ctx bob 100) 0 (after history_social) = Inr s1
          \<and> likes (posts s1 0) = 2 \<and> unlikePost (ctx bob 100) 0 s1 = Inr (after history_social))"
proof -
  have r: "reachable (after history_social)" by (rule reachable_after)
  have v: "author (posts (after history_social) 0) \<noteq> 0"
    "postLikes (after history_social) 0 alice" "\<not> postLikes (after history_social) 0 bob"
    "likes (posts (after history_social) 0) = 1"
    by (simp_all add: history_social_def eval_defs alreadyFollowing_iff)
  obtain s1 where s1: "likePost (ctx bob 100) 0 (after history_social) = Inr s1"
    using v by (simp add: likePost_def checked_add_def UINT256_MAX_def ctx_def)
  note a = like_count_matches_records [OF r, of 0 "ctx alice 100"]
  note b = like_count_matches_records [OF r, of 0 "ctx bob 100"]
  from a have 1: "likes (posts (after history_social) 0) = card {a. postLikes (after history_social) 0 a}"
    by blast
  from a v have 2: "likePost (ctx alice 100) 0 (after history_social) = Inl (Revert ''Already liked this post'')"
    by (simp add: ctx_def)
  from b v have 3: "unlikePost (ctx bob 100) 0 (after history_social) = Inl (Revert ''Haven't liked this post'')"
    by (simp add: ctx_def)
  from a v have 4: "\<exists>s'. unlikePost (ctx alice 100) 0 (after history_social) = Inr s' \<and> likes (posts s' 0) = 0"
    by (simp add: ctx_def)
  from b s1 v have 5: "likes (posts s1 0) = 2 \<and> unlikePost (ctx bob 100) 0 s1 = Inr (after history_social)"
    by simp
  from r 1 v(4) 2 3 4 s1 5 show ?thesis by blast
qed

section \<open>One vote per identity and proposal\<close>

text \<open>No call clears a has-voted record.\<close>

lemma exec_hasVoted_mono:
  assumes "exec e c s = Inr s'" and "hasVoted s q a"
  shows "hasVoted s' q a"
proof (cases c)
  case (Call_castModerationVote q' b w)
  from assms(1) obtain s1 where "castVote_record e q' s = Inr s1" and "castVote_tally q' b w s1 = Inr s'"
    by (auto simp: Call_castModerationVote castModerationVote_def split: sum.splits)
  then show ?thesis
    using castVote_tally_frame [of q' b w s1 s'] assms(2)
    by (auto simp: castVote_record_def split: if_splits)
next
  case (Call_executeProposal q')
  then show ?thesis
    using assms
    by (auto simp: executeProposal_def Let_def split: if_splits option.splits sum.splits
             dest!: applyProposal_frame)
qed (use assms in \<open>auto simp: registerUser_def verifyUser_def createPost_def likePost_def unlikePost_def
  addComment_def flagContent_def startModerationVote_def executeModerationVote_def createProposal_def 
  grantRole_def revokeRole_def renounceRole_def followUser_def
  grantRole_internal_def revokeRole_internal_def Let_def split: if_splits option.splits\<close>)

lemma run_hasVoted_mono:
  "run h s = Inr s' \<Longrightarrow> hasVoted s q a \<Longrightarrow> hasVoted s' q a"
proof (induction h arbitrary: s)
  case Nil
  then show ?case by simp
next
  case (Cons x h)
  obtain e c where x: "x = (e, c)" by (cases x)
  from Cons.prems(1) obtain s1 where s1: "exec e c s = Inr s1" and r: "run h s1 = Inr s'"
    by (auto simp: x split: sum.splits)
  from s1 Cons.prems(2) have "hasVoted s1 q a" by (rule exec_hasVoted_mono)
  with r show ?case by (rule Cons.IH)
qed

text \<open>
  Claim C6, as amended. After a successful cast by an identity on a proposal, every later
  cast by that identity on that proposal reverts, whatever calls came in between: with
  "Already voted" as long as the proposal exists, is \<open>Active\<close> and its deadline has not
  passed, and with the error of the first guard that fails otherwise. A successful cast first
  writes the has-voted record, on a state whose tallies are still the old ones, and then
  the weights; it adds the weight once, to \<open>forVotes\<close> or to \<open>againstVotes\<close> according to
  \<open>support\<close>.
\<close>

theorem castVote_at_most_once:
  assumes "castModerationVote e pid support w s = Inr s1"
  shows "(\<exists>s0. castVote_record e pid s = Inr s0 \<and> hasVoted s0 pid (msg_sender e)
               \<and> proposals s0 = proposals s \<and> moderationVotes s0 = moderationVotes s
               \<and> castVote_tally pid support w s0 = Inr s1)
       \<and> forVotes (proposals s1 pid) = forVotes (proposals s pid) + (if support then w else 0)
       \<and> againstVotes (proposals s1 pid) = againstVotes (proposals s pid) + (if support then 0 else w)
       \<and> (\<forall>h s2 e' support' w'. run h s1 = Inr s2 \<and> msg_sender e' = msg_sender e
             \<longrightarrow> castModerationVote e' pid support' w' s2 =
                   Inl (Revert (if proposal_id (proposals s2 pid) \<noteq> pid then ''Proposal does not exist''
                                else if status (proposals s2 pid) \<noteq> Active then ''Proposal not active''
                                else if \<not> block_timestamp e' < endTime (proposals s2 pid)
                                  then ''Voting period ended''
                                else ''Already voted'')))"
proof -
  from assms obtain s0 where rec: "castVote_record e pid s = Inr s0"
    and tally: "castVote_tally pid support w s0 = Inr s1"
    by (auto simp: castModerationVote_def split: sum.splits)
  from rec have s0: "s0 = s\<lparr>hasVoted := (hasVoted s)(pid := (hasVoted s pid)(msg_sender e := True))\<rparr>"
    by (auto simp: castVote_record_def split: if_splits)
  have order: "\<exists>s0. castVote_record e pid s = Inr s0 \<and> hasVoted s0 pid (msg_sender e)
               \<and> proposals s0 = proposals s \<and> moderationVotes s0 = moderationVotes s
               \<and> castVote_tally pid support w s0 = Inr s1"
    using rec tally by (simp add: s0)
  from tally have weights:
    "forVotes (proposals s1 pid) = forVotes (proposals s pid) + (if support then w else 0)
     \<and> againstVotes (proposals s1 pid) = againstVotes (proposals s pid) + (if support then 0 else w)"
    by (auto simp: s0 castVote_tally_def checked_add_def Let_def split: if_splits option.splits)
  from tally have "hasVoted s1 = hasVoted s0" using castVote_tally_frame by blast
  then have voted: "hasVoted s1 pid (msg_sender e)" by (simp add: s0)
  have later: "castModerationVote e' pid support' w' s2 =
                   Inl (Revert (if proposal_id (proposals s2 pid) \<noteq> pid then ''Proposal does not exist''
                                else if status (proposals s2 pid) \<noteq> Active then ''Proposal not active''
                                else if \<not> block_timestamp e' < endTime (proposals s2 pid)
                                  then ''Voting period ended''
                                else ''Already voted''))"
    if h: "run h s1 = Inr s2 \<and> msg_sender e' = msg_sender e" for h s2 e' support' w'
  proof -
    from h voted have "hasVoted s2 pid (msg_sender e')"
      using run_hasVoted_mono [of h s1 s2 pid "msg_sender e"] by simp
    then show ?thesis by (simp add: castModerationVote_def castVote_record_def)
  qed
  from order weights later show ?thesis by blast
qed

text \<open>
  Claim C6, as amended, on the vote of \<open>alice\<close> in \<open>history_grant\<close>: weight 100 goes to
  \<open>forVotes\<close>, a second vote before the deadline reverts with "Already voted", and one at the
  deadline reverts with "Voting period ended".
\<close>

theorem castVote_at_most_once_witness:
  "castModerationVote (ctx alice 100) 0 True 100 (after history_grant_open) = Inr (after history_grant)
   \<and> (\<exists>s0. castVote_record (ctx alice 100) 0 (after history_grant_open) = Inr s0
            \<and> hasVoted s0 0 alice
            \<and> proposals s0 = proposals (after history_grant_open)
            \<and> castVote_tally 0 True 100 s0 = Inr (after history_grant))
   \<and> forVotes (proposals (after history_grant) 0) = 100
   \<and> againstVotes (proposals (after history_grant) 0) = 0
   \<and> castModerationVote (ctx alice 200) 0 False 7 (after history_grant) = Inl (Revert ''Already voted'')
   \<and> castModerationVote (ctx alice 259300) 0 False 7 (after history_grant)
       = Inl (Revert ''Voting period ended'')"
proof -
  have h: "castModerationVote (ctx alice 100) 0 True 100 (after history_grant_open)
             = Inr (after history_grant)"
    by (simp add: history_grant_def history_grant_open_def eval_defs)
  have v: "forVotes (proposals (after history_grant_open) 0) = 0"
    "againstVotes (proposals (after history_grant_open) 0) = 0"
    by (simp_all add: history_grant_open_def eval_defs)
  have g: "proposal_id (proposals (after history_grant) 0) = 0"
    "status (proposals (after history_grant) 0) = Active"
    "endTime (proposals (after history_grant) 0) = 259300"
    by (simp_all add: history_grant_def history_grant_open_def eval_defs)
  have r: "run [] (after history_grant) = Inr (after history_grant)" by simp
  note t = castVote_at_most_once [OF h]
  from t have 1: "\<exists>s0. castVote_record (ctx alice 100) 0 (after history_grant_open) = Inr s0
            \<and> hasVoted s0 0 alice
            \<and> proposals s0 = proposals (after history_grant_open)
            \<and> castVote_tally 0 True 100 s0 = Inr (after history_grant)"
    by (auto simp: ctx_def)
  from t v have 2: "forVotes (proposals (after history_grant) 0) = 100
     \<and> againstVotes (proposals (after history_grant) 0) = 0"
    by simp
  from t have later: "\<forall>h s2 e' support' w'.
       run h (after history_grant) = Inr s2 \<and> msg_sender e' = msg_sender (ctx alice 100)
       \<longrightarrow> castModerationVote e' 0 support' w' s2 =
             Inl (Revert (if proposal_id (proposals s2 0) \<noteq> 0 then ''Proposal does not exist''
                          else if status (proposals s2 0) \<noteq> Active then ''Proposal not active''
                          else if \<not> block_timestamp e' < endTime (proposals s2 0)
                            then ''Voting period ended''
                          else ''Already voted''))"
    by blast
  have same: "msg_sender (ctx alice 200) = msg_sender (ctx alice 100)"
    "msg_sender (ctx alice 259300) = msg_sender (ctx alice 100)"
    by (simp_all add: ctx_def)
  from later r same(1)
  have "castModerationVote (ctx alice 200) 0 False 7 (after history_grant) =
          Inl (Revert (if proposal_id (proposals (after history_grant) 0) \<noteq> 0 then ''Proposal does not exist''
                       else if status (proposals (after history_grant) 0) \<noteq> Active then ''Proposal not active''
                       else if \<not> block_timestamp (ctx alice 200) < endTime (proposals (after history_grant) 0)
                         then ''Voting period ended''
                       else ''Already voted''))"
    by blast
  with g
  have 3: "castModerationVote (ctx alice 200) 0 False 7 (after history_grant) = Inl (Revert ''Already voted'')"
    by (simp add: ctx_def)
  from later r same(2)
  have "castModerationVote (ctx alice 259300) 0 False 7 (after history_grant) =
          Inl (Revert (if proposal_id (proposals (after history_grant) 0) \<noteq> 0 then ''Proposal does not exist''
                       else if status (proposals (after history_grant) 0) \<noteq> Active then ''Proposal not active''
                       else if \<not> block_timestamp (ctx alice 259300) < endTime (proposals (after history_grant) 0)
                         then ''Voting period ended''
                       else ''Already voted''))"
    by blast
  with g
  have 4: "castModerationVote (ctx alice 259300) 0 False 7 (after history_grant)
             = Inl (Revert ''Voting period ended'')"
    by (simp add: ctx_def)
  from h 1 2 3 4 show ?thesis by blast
qed

text \<open>
  Claim C6 as stated fails on the kind of the error: the second cast of \<open>alice\<close>, made at
  the deadline, reverts with "Voting period ended" and not with "Already voted".
\<close>

theorem castVote_second_cast_counterexample:
  "castModerationVote (ctx alice 100) 0 True 100 (after history_grant_open) = Inr (after history_grant)
   \<and> castModerationVote (ctx alice 259300) 0 True 100 (after history_grant)
       = Inl (Revert ''Voting period ended'')
   \<and> castModerationVote (ctx alice 259300) 0 True 100 (after history_grant)
       \<noteq> Inl (Revert ''Already voted'')"
  by (simp add: history_grant_def history_grant_open_def eval_defs)

section \<open>Executing a moderation vote\<close>

text \<open>
  Once its three guards hold, \<open>executeModerationVote\<close> is a function of the tallies of the
  linked proposal.
\<close>

lemma executeModerationVote_result:
  assumes "vote_postId (moderationVotes s p) = p" and "\<not> executed (moderationVotes s p)"
    and "vote_endTime (moderationVotes s p) \<le> block_timestamp e"
    and "q = proposalId (moderationVotes s p)"
    and "F = forVotes (proposals s q)" and "A = againstVotes (proposals s q)"
  shows "executeModerationVote e p s =
     (if UINT256_MAX < F + A then Inl Panic
      else if 0 < F + A \<and> A < F then
        Inr (s\<lparr>posts := (posts s)(p := (posts s p)\<lparr>moderationStatus := Removed\<rparr>),
               proposals := (proposals s)(q := (proposals s q)\<lparr>status := Executed\<rparr>),
               moderationVotes := (moderationVotes s)(p := (moderationVotes s p)\<lparr>executed := True\<rparr>)\<rparr>)
      else
        Inr (s\<lparr>posts := (posts s)(p := (posts s p)\<lparr>moderationStatus := NoneStatus\<rparr>),
               proposals := (proposals s)(q := (proposals s q)\<lparr>status := Rejected\<rparr>),
               moderationVotes := (moderationVotes s)(p := (moderationVotes s p)\<lparr>executed := True\<rparr>)\<rparr>))"
  using assms by (simp add: executeModerationVote_def Let_def checked_add_def)

text \<open>
  Claim C4, as amended. For a post whose moderation vote exists, is not executed and has
  its deadline passed, \<open>executeModerationVote\<close> decides on the tallies \<open>F\<close> (for) and \<open>A\<close>
  (against) of the linked proposal. When \<open>F + A\<close> fits in 256 bits the call succeeds and
  marks the vote executed; if \<open>F + A > 0\<close> and \<open>F > A\<close> (a tie does not pass) the post becomes
  \<open>Removed\<close> and the proposal \<open>Executed\<close>, otherwise the post becomes \<open>None\<close> and the proposal
  \<open>Rejected\<close>. When \<open>F + A\<close> does not fit the call reverts with a panic.
\<close>

theorem executeModerationVote_outcome:
  assumes "vote_postId (moderationVotes s p) = p" and "\<not> executed (moderationVotes s p)"
    and "vote_endTime (moderationVotes s p) \<le> block_timestamp e"
    and "q = proposalId (moderationVotes s p)"
    and "F = forVotes (proposals s q)" and "A = againstVotes (proposals s q)"
  shows "(F + A \<le> UINT256_MAX \<longrightarrow>
           (\<exists>s'. executeModerationVote e p s = Inr s' \<and> executed (moderationVotes s' p)
              \<and> (if 0 < F + A \<and> A < F
                  then moderationStatus (posts s' p) = Removed \<and> status (proposals s' q) = Executed
                  else moderationStatus (posts s' p) = NoneStatus \<and> status (proposals s' q) = Rejected)))
       \<and> (UINT256_MAX < F + A \<longrightarrow> executeModerationVote e p s = Inl Panic)"
  using executeModerationVote_result [OF assms] by simp

text \<open>
  Claim C4, as amended, on scenario D of the spec (60 for, 100 against: the post goes back
  to \<open>None\<close> and the proposal is \<open>Rejected\<close>) and on two votes of weight \<open>2^255\<close> (a panic).
\<close>

theorem executeModerationVote_outcome_witness:
  "vote_postId (moderationVotes (after history_failing) 1) = 1
   \<and> \<not> executed (moderationVotes (after history_failing) 1)
   \<and> vote_endTime (moderationVotes (after history_failing) 1) \<le> block_timestamp (ctx bob 259300)
   \<and> proposalId (moderationVotes (after history_failing) 1) = 0
   \<and> forVotes (proposals (after history_failing) 0) = 60
   \<and> againstVotes (proposals (after history_failing) 0) = 100
   \<and> (\<exists>s'. executeModerationVote (ctx bob 259300) 1 (after history_failing) = Inr s'
          \<and> executed (moderationVotes s' 1)
          \<and> moderationStatus (posts s' 1) = NoneStatus \<and> status (proposals s' 0) = Rejected)
   \<and> vote_postId (moderationVotes (after history_huge_weights) 1) = 1
   \<and> \<not> executed (moderationVotes (after history_huge_weights) 1)
   \<and> vote_endTime (moderationVotes (after history_huge_weights) 1) \<le> block_timestamp (ctx bob 259300)
   \<and> executeModerationVote (ctx bob 259300) 1 (after history_huge_weights) = Inl Panic"
proof -
  have a: "vote_postId (moderationVotes (after history_failing) 1) = 1"
    "\<not> executed (moderationVotes (after history_failing) 1)"
    "vote_endTime (moderationVotes (after history_failing) 1) \<le> block_timestamp (ctx bob 259300)"
    "0 = proposalId (moderationVotes (after history_failing) 1)"
    "60 = forVotes (proposals (after history_failing) 0)"
    "100 = againstVotes (proposals (after history_failing) 0)"
    by (simp_all add: history_failing_def history_vote_open_def eval_defs)
  have b: "vote_postId (moderationVotes (after history_huge_weights) 1) = 1"
    "\<not> executed (moderationVotes (after history_huge_weights) 1)"
    "vote_endTime (moderationVotes (after history_huge_weights) 1) \<le> block_timestamp (ctx bob 259300)"
    "0 = proposalId (moderationVotes (after history_huge_weights) 1)"
    "2 ^ 255 = forVotes (proposals (after history_huge_weights) 0)"
    "2 ^ 255 = againstVotes (proposals (after history_huge_weights) 0)"
    by (simp_all add: history_huge_weights_def history_vote_open_def eval_defs)
  from executeModerationVote_outcome [OF a]
  have 1: "\<exists>s'. executeModerationVote (ctx bob 259300) 1 (after history_failing) = Inr s'
          \<and> executed (moderationVotes s' 1)
          \<and> moderationStatus (posts s' 1) = NoneStatus \<and> status (proposals s' 0) = Rejected"
    by (simp add: UINT256_MAX_def)
  from executeModerationVote_outcome [OF b]
  have 2: "executeModerationVote (ctx bob 259300) 1 (after history_huge_weights) = Inl Panic"
    by (simp add: UINT256_MAX_def)
  from a 1 b(1-3) 2 show ?thesis by simp
qed

text \<open>
  Claim C4 as stated fails twice. With \<open>2^255\<close> for and \<open>2^255\<close> against, the vote is due
  and not executed, yet the call reverts and marks nothing. After \<open>history_second_proposal\<close>
  the moderation vote of post 1 holds 5 for and 0 against, which the claim takes for
  quorum and majority, yet the linked proposal 0 holds no weight and the post goes back
  to \<open>None\<close>.
\<close>

theorem executeModerationVote_outcome_counterexample:
  "vote_postId (moderationVotes (after history_huge_weights) 1) = 1
   \<and> \<not> executed (moderationVotes (after history_huge_weights) 1)
   \<and> vote_endTime (moderationVotes (after history_huge_weights) 1) \<le> 259300
   \<and> forRemovalVotes (moderationVotes (after history_huge_weights) 1) = 2 ^ 255
   \<and> againstRemovalVotes (moderationVotes (after history_huge_weights) 1) = 2 ^ 255
   \<and> executeModerationVote (ctx bob 259300) 1 (after history_huge_weights) = Inl Panic
   \<and> vote_postId (moderationVotes (after history_second_proposal) 1) = 1
   \<and> \<not> executed (moderationVotes (after history_second_proposal) 1)
   \<and> vote_endTime (moderationVotes (after history_second_proposal) 1) \<le> 259300
   \<and> forRemovalVotes (moderationVotes (after history_second_proposal) 1) = 5
   \<and> againstRemovalVotes (moderationVotes (after history_second_proposal) 1) = 0
   \<and> executeModerationVote (ctx bob 259300) 1 (after history_second_proposal)
       = Inr (after (history_second_proposal @ [(ctx bob 259300, Call_executeModerationVote 1)]))
   \<and> moderationStatus (posts (after (history_second_proposal
         @ [(ctx bob 259300, Call_executeModerationVote 1)])) 1) = NoneStatus
   \<and> status (proposals (after (history_second_proposal
         @ [(ctx bob 259300, Call_executeModerationVote 1)])) 0) = Rejected"
  by (simp add: history_huge_weights_def history_second_proposal_def history_vote_open_def eval_defs)

section \<open>Executing once\<close>

text \<open>
  A vote changes neither the status nor the id of a proposal, and neither the executed
  flag nor the post id of a moderation vote. An executed moderation vote stays executed
  until a new vote is started for the post, and a proposal that has left \<open>Active\<close> never
  comes back to it.
\<close>

lemma castVote_tally_entries:
  assumes "castVote_tally q b w s = Inr s'"
  shows "status (proposals s' x) = status (proposals s x)"
    and "proposal_id (proposals s' x) = proposal_id (proposals s x)"
    and "executed (moderationVotes s' y) = executed (moderationVotes s y)"
    and "vote_postId (moderationVotes s' y) = vote_postId (moderationVotes s y)"
  using assms
  by (auto simp: castVote_tally_def Let_def split: if_splits option.splits)

lemma castModerationVote_entries:
  assumes "castModerationVote e q b w s = Inr s'"
  shows "status (proposals s' x) = status (proposals s x)"
    and "proposal_id (proposals s' x) = proposal_id (proposals s x)"
    and "executed (moderationVotes s' y) = executed (moderationVotes s y)"
    and "vote_postId (moderationVotes s' y) = vote_postId (moderationVotes s y)"
    and "proposalIdCounter s' = proposalIdCounter s"
proof -
  from assms obtain s1 where r: "castVote_record e q s = Inr s1" and t: "castVote_tally q b w s1 = Inr s'"
    by (auto simp: castModerationVote_def split: sum.splits)
  from r have s1: "proposals s1 = proposals s" "moderationVotes s1 = moderationVotes s"
    "proposalIdCounter s1 = proposalIdCounter s"
    by (auto simp: castVote_record_def split: if_splits)
  from castVote_tally_entries [OF t] castVote_tally_frame [OF t] s1
  show "status (proposals s' x) = status (proposals s x)"
    and "proposal_id (proposals s' x) = proposal_id (proposals s x)"
    and "executed (moderationVotes s' y) = executed (moderationVotes s y)"
    and "vote_postId (moderationVotes s' y) = vote_postId (moderationVotes s y)"
    and "proposalIdCounter s' = proposalIdCounter s"
    by simp_all
qed

lemma exec_executed_vote:
  assumes "exec e c s = Inr s'" and "c \<noteq> Call_startModerationVote p" and "executed_vote p s"
  shows "executed_vote p s'"
proof (cases c)
  case (Call_castModerationVote q b w)
  with assms(1) have "castModerationVote e q b w s = Inr s'" by simp
  from castModerationVote_entries(3,4) [OF this] assms(3) show ?thesis
    by (simp add: executed_vote_def)
next
  case (Call_executeProposal q)
  then show ?thesis
    using assms(1,3)
    by (auto simp: executed_vote_def executeProposal_def Let_def
             split: if_splits option.splits sum.splits dest!: applyProposal_frame)
qed (use assms in \<open>auto simp: executed_vote_def registerUser_def verifyUser_def createPost_def
  likePost_def unlikePost_def addComment_def flagContent_def startModerationVote_def
  executeModerationVote_def createProposal_def grantRole_def revokeRole_def renounceRole_def
  followUser_def grantRole_internal_def revokeRole_internal_def Let_def
  split: if_splits option.splits\<close>)

lemma exec_closed_proposal:
  assumes "exec e c s = Inr s'" and "closed_proposal q s"
  shows "closed_proposal q s'"
proof (cases c)
  case (Call_castModerationVote q' b w)
  with assms(1) have "castModerationVote e q' b w s = Inr s'" by simp
  from castModerationVote_entries(1,2,5) [OF this] assms(2) show ?thesis
    by (simp add: closed_proposal_def)
next
  case (Call_executeProposal q')
  then show ?thesis
    using assms
    by (auto simp: closed_proposal_def executeProposal_def Let_def
             split: if_splits option.splits sum.splits dest!: applyProposal_frame)
qed (use assms in \<open>auto simp: closed_proposal_def registerUser_def verifyUser_def createPost_def
  likePost_def unlikePost_def addComment_def flagContent_def startModerationVote_def
  executeModerationVote_def createProposal_def grantRole_def revokeRole_def renounceRole_def
  followUser_def grantRole_internal_def revokeRole_internal_def Let_def
  split: if_splits option.splits\<close>)

lemma run_closed_proposal:
  "run h s = Inr s' \<Longrightarrow> closed_proposal q s \<Longrightarrow> closed_proposal q s'"
proof (induction h arbitrary: s)
  case Nil
  then show ?case by simp
next
  case (Cons x h)
  obtain e c where x: "x = (e, c)" by (cases x)
  from Cons.prems(1) obtain s1 where s1: "exec e c s = Inr s1" and r: "run h s1 = Inr s'"
    by (auto simp: x split: sum.splits)
  from s1 Cons.prems(2) have "closed_proposal q s1" by (rule exec_closed_proposal)
  with r show ?case by (rule Cons.IH)
qed

lemma run_executed_vote:
  "run h s = Inr s' \<Longrightarrow> \<forall>x \<in> set h. snd x \<noteq> Call_startModerationVote p \<Longrightarrow> executed_vote p s
     \<Longrightarrow> executed_vote p s'"
proof (induction h arbitrary: s)
  case Nil
  then show ?case by simp
next
  case (Cons x h)
  obtain e c where x: "x = (e, c)" by (cases x)
  from Cons.prems(1) obtain s1 where s1: "exec e c s = Inr s1" and r: "run h s1 = Inr s'"
    by (auto simp: x split: sum.splits)
  from Cons.prems(2) have c: "c \<noteq> Call_startModerationVote p"
    and rest: "\<forall>x \<in> set h. snd x \<noteq> Call_startModerationVote p"
    by (simp_all add: x)
  from s1 c Cons.prems(3) have "executed_vote p s1" by (rule exec_executed_vote)
  with r rest show ?case by (rule Cons.IH)
qed

lemma payload_decodes_iff: "payload_decodes p = (\<exists>s1. applyProposal p s = Inr s1)"
  by (cases "proposalType p")
     (auto simp: payload_decodes_def applyProposal_def split: option.splits prod.splits)

lemma executeProposal_result:
  assumes "proposal_id (proposals s q) = q" and "status (proposals s q) = Active"
    and "endTime (proposals s q) \<le> block_timestamp e"
    and "F = forVotes (proposals s q)" and "A = againstVotes (proposals s q)"
  shows "executeProposal e q s =
     (if UINT256_MAX < F + A then Inl Panic
      else if A < F then
        (case applyProposal (proposals s q) s of
           Inl err \<Rightarrow> Inl err
         | Inr s1 \<Rightarrow> Inr (s1\<lparr>proposals := (proposals s)(q := (proposals s q)\<lparr>status := Executed\<rparr>)\<rparr>))
      else Inr (s\<lparr>proposals := (proposals s)(q := (proposals s q)\<lparr>status := Rejected\<rparr>)\<rparr>))"
  using assms
  by (auto simp: executeProposal_def Let_def checked_add_def split: sum.splits
           dest!: applyProposal_frame)

lemma executeProposal_closes:
  assumes "executeProposal e q s = Inr s'"
  shows "proposal_id (proposals s' q) = q"
    and "status (proposals s' q) = (if againstVotes (proposals s q) < forVotes (proposals s q)
                                    then Executed else Rejected)"
    and "proposalIdCounter s' = proposalIdCounter s"
proof -
  from assms have pre: "proposal_id (proposals s q) = q" "status (proposals s q) = Active"
    "endTime (proposals s q) \<le> block_timestamp e"
    by (auto simp: executeProposal_def Let_def split: if_splits)
  note r = executeProposal_result [OF pre refl refl]
  from assms r pre(1)
  show "proposal_id (proposals s' q) = q"
    and "status (proposals s' q) = (if againstVotes (proposals s q) < forVotes (proposals s q)
                                    then Executed else Rejected)"
    and "proposalIdCounter s' = proposalIdCounter s"
    by (auto split: if_splits sum.splits dest!: applyProposal_frame)
qed

lemma executeModerationVote_closes:
  assumes "executeModerationVote e p s = Inr s'"
  shows "executed_vote p s'"
  using assms
  by (auto simp: executed_vote_def executeModerationVote_def Let_def split: if_splits option.splits)

text \<open>
  What a successful execution writes: \<open>executeProposal\<close> by the kind of the proposal,
  \<open>executeModerationVote\<close> by the tallies of the linked proposal.
\<close>

lemma executeProposal_effect:
  assumes "executeProposal e q s = Inr s'"
  shows "(\<not> againstVotes (proposals s q) < forVotes (proposals s q)
            \<longrightarrow> s' = s\<lparr>proposals := (proposals s)(q := (proposals s q)\<lparr>status := Rejected\<rparr>)\<rparr>)
       \<and> (againstVotes (proposals s q) < forVotes (proposals s q)
            \<and> proposalType (proposals s q) = UpdateParameters
            \<longrightarrow> (\<exists>name v. abi_decode_string_uint256 (data (proposals s q)) = Some (name, v)
                  \<and> s' = (if name = ''flagThreshold'' then s\<lparr>flagThreshold := v\<rparr>
                          else if name = ''voteDuration'' then s\<lparr>voteDuration := v\<rparr>
                          else if name = ''quorumPercentage'' then s\<lparr>quorumPercentage := v\<rparr>
                          else s)
                         \<lparr>proposals := (proposals s)(q := (proposals s q)\<lparr>status := Executed\<rparr>)\<rparr>))
       \<and> (againstVotes (proposals s q) < forVotes (proposals s q)
            \<and> proposalType (proposals s q) = GrantRole
            \<longrightarrow> (\<exists>role account. abi_decode_bytes32_address (data (proposals s q)) = Some (role, account)
                  \<and> s' = s\<lparr>proposals := (proposals s)(q := (proposals s q)\<lparr>status := Executed\<rparr>),
                           roles := (roles s)(role := (roles s role)(account := True))\<rparr>))
       \<and> (againstVotes (proposals s q) < forVotes (proposals s q)
            \<and> proposalType (proposals s q) = RevokeRole
            \<longrightarrow> (\<exists>role account. abi_decode_bytes32_address (data (proposals s q)) = Some (role, account)
                  \<and> s' = s\<lparr>proposals := (proposals s)(q := (proposals s q)\<lparr>status := Executed\<rparr>),
                           roles := (roles s)(role := (roles s role)(account := False))\<rparr>))"
proof -
  from assms have pre: "proposal_id (proposals s q) = q" "status (proposals s q) = Active"
    "endTime (proposals s q) \<le> block_timestamp e"
    by (auto simp: executeProposal_def Let_def split: if_splits)
  note r = executeProposal_result [OF pre refl refl]
  have rej: "s' = s\<lparr>proposals := (proposals s)(q := (proposals s q)\<lparr>status := Rejected\<rparr>)\<rparr>"
    if "\<not> againstVotes (proposals s q) < forVotes (proposals s q)"
    using assms r that by (simp split: if_splits)
  have pass: "\<exists>s1. applyProposal (proposals s q) s = Inr s1
       \<and> s' = s1\<lparr>proposals := (proposals s)(q := (proposals s q)\<lparr>status := Executed\<rparr>)\<rparr>"
    if "againstVotes (proposals s q) < forVotes (proposals s q)"
    using assms r that by (auto split: if_splits sum.splits)
  have upd: "\<exists>name v. abi_decode_string_uint256 (data (proposals s q)) = Some (name, v)
                  \<and> s' = (if name = ''flagThreshold'' then s\<lparr>flagThreshold := v\<rparr>
                          else if name = ''voteDuration'' then s\<lparr>voteDuration := v\<rparr>
                          else if name = ''quorumPercentage'' then s\<lparr>quorumPercentage := v\<rparr>
                          else s)
                         \<lparr>proposals := (proposals s)(q := (proposals s q)\<lparr>status := Executed\<rparr>)\<rparr>"
    if "againstVotes (proposals s q) < forVotes (proposals s q)
          \<and> proposalType (proposals s q) = UpdateParameters"
  proof -
    from that pass obtain s1 where a: "applyProposal (proposals s q) s = Inr s1"
      and s': "s' = s1\<lparr>proposals := (proposals s)(q := (proposals s q)\<lparr>status := Executed\<rparr>)\<rparr>"
      by blast
    from a that obtain name v where d: "abi_decode_string_uint256 (data (proposals s q)) = Some (name, v)"
      by (auto simp: applyProposal_def split: option.splits)
    from a that d have "s1 = (if name = ''flagThreshold'' then s\<lparr>flagThreshold := v\<rparr>
                          else if name = ''voteDuration'' then s\<lparr>voteDuration := v\<rparr>
                          else if name = ''quorumPercentage'' then s\<lparr>quorumPercentage := v\<rparr>
                          else s)"
      by (simp add: applyProposal_def split: if_splits)
    with d s' show ?thesis by blast
  qed
  have grant: "\<exists>role account. abi_decode_bytes32_address (data (proposals s q)) = Some (role, account)
                  \<and> s' = s\<lparr>proposals := (proposals s)(q := (proposals s q)\<lparr>status := Executed\<rparr>),
                           roles := (roles s)(role := (roles s role)(account := True))\<rparr>"
    if "againstVotes (proposals s q) < forVotes (proposals s q)
          \<and> proposalType (proposals s q) = GrantRole"
  proof -
    from that pass obtain s1 where a: "applyProposal (proposals s q) s = Inr s1"
      and s': "s' = s1\<lparr>proposals := (proposals s)(q := (proposals s q)\<lparr>status := Executed\<rparr>)\<rparr>"
      by blast
    from a that obtain role account
      where d: "abi_decode_bytes32_address (data (proposals s q)) = Some (role, account)"
      by (auto simp: applyProposal_def split: option.splits)
    from a that d have "s1 = s\<lparr>roles := (roles s)(role := (roles s role)(account := True))\<rparr>"
      by (simp add: applyProposal_def grantRole_internal_def)
    with d s' show ?thesis by simp
  qed
  have revoke: "\<exists>role account. abi_decode_bytes32_address (data (proposals s q)) = Some (role, account)
                  \<and> s' = s\<lparr>proposals := (proposals s)(q := (proposals s q)\<lparr>status := Executed\<rparr>),
                           roles := (roles s)(role := (roles s role)(account := False))\<rparr>"
    if "againstVotes (proposals s q) < forVotes (proposals s q)
          \<and> proposalType (proposals s q) = RevokeRole"
  proof -
    from that pass obtain s1 where a: "applyProposal (proposals s q) s = Inr s1"
      and s': "s' = s1\<lparr>proposals := (proposals s)(q := (proposals s q)\<lparr>status := Executed\<rparr>)\<rparr>"
      by blast
    from a that obtain role account
      where d: "abi_decode_bytes32_address (data (proposals s q)) = Some (role, account)"
      by (auto simp: applyProposal_def split: option.splits)
    from a that d have "s1 = s\<lparr>roles := (roles s)(role := (roles s role)(account := False))\<rparr>"
      by (simp add: applyProposal_def revokeRole_internal_def)
    with d s' show ?thesis by simp
  qed
  from rej upd grant revoke show ?thesis by blast
qed

lemma executeModerationVote_effect:
  assumes "executeModerationVote e p s = Inr s'"
  shows "s' = s\<lparr>posts := (posts s)(p := (posts s p)\<lparr>moderationStatus :=
                    (if 0 < forVotes (proposals s (proposalId (moderationVotes s p)))
                              + againstVotes (proposals s (proposalId (moderationVotes s p)))
                        \<and> againstVotes (proposals s (proposalId (moderationVotes s p)))
                          < forVotes (proposals s (proposalId (moderationVotes s p)))
                     then Removed else NoneStatus)\<rparr>),
                 proposals := (proposals s)(proposalId (moderationVotes s p) :=
                    (proposals s (proposalId (moderationVotes s p)))\<lparr>status :=
                    (if 0 < forVotes (proposals s (proposalId (moderationVotes s p)))
                              + againstVotes (proposals s (proposalId (moderationVotes s p)))
                        \<and> againstVotes (proposals s (proposalId (moderationVotes s p)))
                          < forVotes (proposals s (proposalId (moderationVotes s p)))
                     then Executed else Rejected)\<rparr>),
                 moderationVotes := (moderationVotes s)(p := (moderationVotes s p)\<lparr>executed := True\<rparr>)\<rparr>"
proof -
  from assms have pre: "vote_postId (moderationVotes s p) = p" "\<not> executed (moderationVotes s p)"
    "vote_endTime (moderationVotes s p) \<le> block_timestamp e"
    by (auto simp: executeModerationVote_def Let_def split: if_splits)
  note r = executeModerationVote_result [OF pre refl refl refl]
  from assms r show ?thesis by (auto split: if_splits)
qed

text \<open>
  Claim C7, as amended. A first call of \<open>executeModerationVote\<close> that succeeds applies the
  effect and flips the flag: the post becomes \<open>Removed\<close> and the linked proposal \<open>Executed\<close>
  when quorum and majority hold, the post becomes \<open>None\<close> and the proposal \<open>Rejected\<close>
  otherwise, the vote is marked executed, and nothing else changes. A first call of
  \<open>executeProposal\<close> that succeeds applies the effect and sets the status: without a
  majority the proposal becomes \<open>Rejected\<close> and nothing else changes; a passing
  \<open>UpdateParameters\<close> proposal sets the parameter it names (none for an unknown name), a
  passing \<open>GrantRole\<close> or \<open>RevokeRole\<close> proposal sets or clears the role entry it names, and
  the proposal becomes \<open>Executed\<close>, with nothing else changed. For a passing
  \<open>RemoveContent\<close> proposal only the status is stated here (see claim C1).

  Every later \<open>executeModerationVote\<close> on the post reverts with "Vote already executed",
  as long as no new moderation vote has been started for the post, and every later
  \<open>executeProposal\<close> on the proposal reverts with "Proposal not active": directly
  afterwards, and after any further calls once the id of the proposal has been
  allocated. A revert leaves the state as it was. The first call after the deadline
  succeeds when the sum of the two tallies fits in 256 bits and, for a passing proposal,
  the payload decodes; otherwise it reverts (with a panic, for a moderation vote).
\<close>

theorem execute_at_most_once:
  "(\<forall>s'. executeModerationVote e p s = Inr s' \<longrightarrow>
       s' = s\<lparr>posts := (posts s)(p := (posts s p)\<lparr>moderationStatus :=
                    (if 0 < forVotes (proposals s (proposalId (moderationVotes s p)))
                              + againstVotes (proposals s (proposalId (moderationVotes s p)))
                        \<and> againstVotes (proposals s (proposalId (moderationVotes s p)))
                          < forVotes (proposals s (proposalId (moderationVotes s p)))
                     then Removed else NoneStatus)\<rparr>),
                 proposals := (proposals s)(proposalId (moderationVotes s p) :=
                    (proposals s (proposalId (moderationVotes s p)))\<lparr>status :=
                    (if 0 < forVotes (proposals s (proposalId (moderationVotes s p)))
                              + againstVotes (proposals s (proposalId (moderationVotes s p)))
                        \<and> againstVotes (proposals s (proposalId (moderationVotes s p)))
                          < forVotes (proposals s (proposalId (moderationVotes s p)))
                     then Executed else Rejected)\<rparr>),
                 moderationVotes := (moderationVotes s)(p := (moderationVotes s p)\<lparr>executed := True\<rparr>)\<rparr>
       \<and> executed (moderationVotes s' p)
       \<and> (\<forall>h s2 e'. run h s' = Inr s2 \<and> (\<forall>x \<in> set h. snd x \<noteq> Call_startModerationVote p)
             \<longrightarrow> executeModerationVote e' p s2 = Inl (Revert ''Vote already executed'')))
   \<and> (\<forall>s'. executeProposal e q s = Inr s' \<longrightarrow>
       status (proposals s' q) = (if againstVotes (proposals s q) < forVotes (proposals s q)
                                  then Executed else Rejected)
       \<and> (\<not> againstVotes (proposals s q) < forVotes (proposals s q)
            \<longrightarrow> s' = s\<lparr>proposals := (proposals s)(q := (proposals s q)\<lparr>status := Rejected\<rparr>)\<rparr>)
       \<and> (againstVotes (proposals s q) < forVotes (proposals s q)
            \<and> proposalType (proposals s q) = UpdateParameters
            \<longrightarrow> (\<exists>name v. abi_decode_string_uint256 (data (proposals s q)) = Some (name, v)
                  \<and> s' = (if name = ''flagThreshold'' then s\<lparr>flagThreshold := v\<rparr>
                          else if name = ''voteDuration'' then s\<lparr>voteDuration := v\<rparr>
                          else if name = ''quorumPercentage'' then s\<lparr>quorumPercentage := v\<rparr>
                          else s)
                         \<lparr>proposals := (proposals s)(q := (proposals s q)\<lparr>status := Executed\<rparr>)\<rparr>))
       \<and> (againstVotes (proposals s q) < forVotes (proposals s q)
            \<and> proposalType (proposals s q) = GrantRole
            \<longrightarrow> (\<exists>role account. abi_decode_bytes32_address (data (proposals s q)) = Some (role, account)
                  \<and> s' = s\<lparr>proposals := (proposals s)(q := (proposals s q)\<lparr>status := Executed\<rparr>),
                           roles := (roles s)(role := (roles s role)(account := True))\<rparr>))
       \<and> (againstVotes (proposals s q) < forVotes (proposals s q)
            \<and> proposalType (proposals s q) = RevokeRole
            \<longrightarrow> (\<exists>role account. abi_decode_bytes32_address (data (proposals s q)) = Some (role, account)
                  \<and> s' = s\<lparr>proposals := (proposals s)(q := (proposals s q)\<lparr>status := Executed\<rparr>),
                           roles := (roles s)(role := (roles s role)(account := False))\<rparr>))
       \<and> (\<forall>h s2 e'. run h s' = Inr s2 \<and> (h = [] \<or> q < proposalIdCounter s')
             \<longrightarrow> executeProposal e' q s2 = Inl (Revert ''Proposal not active'')))
   \<and> (vote_postId (moderationVotes s p) = p \<and> \<not> executed (moderationVotes s p)
        \<and> vote_endTime (moderationVotes s p) \<le> block_timestamp e
      \<longrightarrow> (if forVotes (proposals s (proposalId (moderationVotes s p)))
               + againstVotes (proposals s (proposalId (moderationVotes s p))) \<le> UINT256_MAX
           then \<exists>s'. executeModerationVote e p s = Inr s'
           else executeModerationVote e p s = Inl Panic))
   \<and> (proposal_id (proposals s q) = q \<and> status (proposals s q) = Active
        \<and> endTime (proposals s q) \<le> block_timestamp e
      \<longrightarrow> (if forVotes (proposals s q) + againstVotes (proposals s q) \<le> UINT256_MAX
              \<and> (againstVotes (proposals s q) < forVotes (proposals s q)
                   \<longrightarrow> payload_decodes (proposals s q))
           then \<exists>s'. executeProposal e q s = Inr s'
           else \<exists>err. executeProposal e q s = Inl err))"
proof -
  have votes: "s' = s\<lparr>posts := (posts s)(p := (posts s p)\<lparr>moderationStatus :=
                    (if 0 < forVotes (proposals s (proposalId (moderationVotes s p)))
                              + againstVotes (proposals s (proposalId (moderationVotes s p)))
                        \<and> againstVotes (proposals s (proposalId (moderationVotes s p)))
                          < forVotes (proposals s (proposalId (moderationVotes s p)))
                     then Removed else NoneStatus)\<rparr>),
                 proposals := (proposals s)(proposalId (moderationVotes s p) :=
                    (proposals s (proposalId (moderationVotes s p)))\<lparr>status :=
                    (if 0 < forVotes (proposals s (proposalId (moderationVotes s p)))
                              + againstVotes (proposals s (proposalId (moderationVotes s p)))
                        \<and> againstVotes (proposals s (proposalId (moderationVotes s p)))
                          < forVotes (proposals s (proposalId (moderationVotes s p)))
                     then Executed else Rejected)\<rparr>),
                 moderationVotes := (moderationVotes s)(p := (moderationVotes s p)\<lparr>executed := True\<rparr>)\<rparr>
       \<and> executed (moderationVotes s' p)
       \<and> (\<forall>h s2 e'. run h s' = Inr s2 \<and> (\<forall>x \<in> set h. snd x \<noteq> Call_startModerationVote p)
             \<longrightarrow> executeModerationVote e' p s2 = Inl (Revert ''Vote already executed''))"
    if ex: "executeModerationVote e p s = Inr s'" for s'
  proof -
    from ex have c: "executed_vote p s'" by (rule executeModerationVote_closes)
    have "executeModerationVote e' p s2 = Inl (Revert ''Vote already executed'')"
      if "run h s' = Inr s2 \<and> (\<forall>x \<in> set h. snd x \<noteq> Call_startModerationVote p)" for h s2 e'
    proof -
      from that c have "executed_vote p s2" using run_executed_vote by blast
      then show ?thesis by (simp add: executed_vote_def executeModerationVote_def)
    qed
    with c executeModerationVote_effect [OF ex] show ?thesis
      by (simp only: executed_vote_def) blast
  qed
  have props: "status (proposals s' q) = (if againstVotes (proposals s q) < forVotes (proposals s q)
                                  then Executed else Rejected)
       \<and> (\<not> againstVotes (proposals s q) < forVotes (proposals s q)
            \<longrightarrow> s' = s\<lparr>proposals := (proposals s)(q := (proposals s q)\<lparr>status := Rejected\<rparr>)\<rparr>)
       \<and> (againstVotes (proposals s q) < forVotes (proposals s q)
            \<and> proposalType (proposals s q) = UpdateParameters
            \<longrightarrow> (\<exists>name v. abi_decode_string_uint256 (data (proposals s q)) = Some (name, v)
                  \<and> s' = (if name = ''flagThreshold'' then s\<lparr>flagThreshold := v\<rparr>
                          else if name = ''voteDuration'' then s\<lparr>voteDuration := v\<rparr>
                          else if name = ''quorumPercentage'' then s\<lparr>quorumPercentage := v\<rparr>
                          else s)
                         \<lparr>proposals := (proposals s)(q := (proposals s q)\<lparr>status := Executed\<rparr>)\<rparr>))
       \<and> (againstVotes (proposals s q) < forVotes (proposals s q)
            \<and> proposalType (proposals s q) = GrantRole
            \<longrightarrow> (\<exists>role account. abi_decode_bytes32_address (data (proposals s q)) = Some (role, account)
                  \<and> s' = s\<lparr>proposals := (proposals s)(q := (proposals s q)\<lparr>status := Executed\<rparr>),
                           roles := (roles s)(role := (roles s role)(account := True))\<rparr>))
       \<and> (againstVotes (proposals s q) < forVotes (proposals s q)
            \<and> proposalType (proposals s q) = RevokeRole
            \<longrightarrow> (\<exists>role account. abi_decode_bytes32_address (data (proposals s q)) = Some (role, account)
                  \<and> s' = s\<lparr>proposals := (proposals s)(q := (proposals s q)\<lparr>status := Executed\<rparr>),
                           roles := (roles s)(role := (roles s role)(account := False))\<rparr>))
       \<and> (\<forall>h s2 e'. run h s' = Inr s2 \<and> (h = [] \<or> q < proposalIdCounter s')
             \<longrightarrow> executeProposal e' q s2 = Inl (Revert ''Proposal not active''))"
    if ex: "executeProposal e q s = Inr s'" for s'
  proof -
    note c = executeProposal_closes [OF ex]
    from c(1,2) have na: "proposal_id (proposals s' q) = q \<and> status (proposals s' q) \<noteq> Active"
      by simp
    have "executeProposal e' q s2 = Inl (Revert ''Proposal not active'')"
      if r: "run h s' = Inr s2 \<and> (h = [] \<or> q < proposalIdCounter s')" for h s2 e'
    proof (cases "h = []")
      case True
      with r have "s2 = s'" by simp
      with na show ?thesis by (simp add: executeProposal_def)
    next
      case False
      with r na have "closed_proposal q s'" by (simp add: closed_proposal_def)
      with r have "closed_proposal q s2" using run_closed_proposal by blast
      then show ?thesis by (simp add: closed_proposal_def executeProposal_def)
    qed
    with c(2) executeProposal_effect [OF ex] show ?thesis by blast
  qed
  have first_vote: "if forVotes (proposals s (proposalId (moderationVotes s p)))
               + againstVotes (proposals s (proposalId (moderationVotes s p))) \<le> UINT256_MAX
           then \<exists>s'. executeModerationVote e p s = Inr s'
           else executeModerationVote e p s = Inl Panic"
    if "vote_postId (moderationVotes s p) = p \<and> \<not> executed (moderationVotes s p)
        \<and> vote_endTime (moderationVotes s p) \<le> block_timestamp e"
    using that executeModerationVote_result [of s p e, OF _ _ _ refl refl refl] by simp
  have first_prop: "if forVotes (proposals s q) + againstVotes (proposals s q) \<le> UINT256_MAX
              \<and> (againstVotes (proposals s q) < forVotes (proposals s q)
                   \<longrightarrow> payload_decodes (proposals s q))
           then \<exists>s'. executeProposal e q s = Inr s'
           else \<exists>err. executeProposal e q s = Inl err"
    if "proposal_id (proposals s q) = q \<and> status (proposals s q) = Active
        \<and> endTime (proposals s q) \<le> block_timestamp e"
    using that executeProposal_result [of s q e, OF _ _ _ refl refl]
      payload_decodes_iff [of "proposals s q" s]
    by (auto split: sum.splits)
  from votes props first_vote first_prop show ?thesis by blast
qed

text \<open>
  Claim C7, as amended, on concrete states. The vote of scenario D is executed (post 1
  back to \<open>None\<close>, proposal 0 \<open>Rejected\<close>) and refused the second time; the vote of
  \<open>history_passing\<close> removes post 1. The \<open>GrantRole\<close> proposal of scenario E makes \<open>bob\<close> a
  moderator and is refused the second time; the \<open>UpdateParameters\<close> proposal sets
  \<open>voteDuration\<close> to 600; the \<open>RevokeRole\<close> proposal takes \<open>ADMIN_ROLE\<close> from the deployer; the
  \<open>GrantRole\<close> proposal without votes is \<open>Rejected\<close> and grants nothing. The proposal with
  the empty payload and the vote with the two huge weights revert on their first
  execution.
\<close>

theorem execute_at_most_once_witness:
  "executeModerationVote (ctx bob 259300) 1 (after history_failing)
      = Inr (after (history_failing @ [(ctx bob 259300, Call_executeModerationVote 1)]))
   \<and> moderationStatus (posts (after (history_failing @ [(ctx bob 259300, Call_executeModerationVote 1)])) 1)
        = NoneStatus
   \<and> status (proposals (after (history_failing @ [(ctx bob 259300, Call_executeModerationVote 1)])) 0)
        = Rejected
   \<and> executed (moderationVotes (after (history_failing @ [(ctx bob 259300, Call_executeModerationVote 1)])) 1)
   \<and> executeModerationVote (ctx alice 300000) 1
        (after (history_failing @ [(ctx bob 259300, Call_executeModerationVote 1)]))
      = Inl (Revert ''Vote already executed'')
   \<and> executeModerationVote (ctx bob 259300) 1 (after history_passing)
      = Inr (after (history_passing @ [(ctx bob 259300, Call_executeModerationVote 1)]))
   \<and> moderationStatus (posts (after (history_passing @ [(ctx bob 259300, Call_executeModerationVote 1)])) 1)
        = Removed
   \<and> status (proposals (after (history_passing @ [(ctx bob 259300, Call_executeModerationVote 1)])) 0)
        = Executed
   \<and> executeProposal (ctx alice 259300) 0 (after history_grant)
      = Inr (after (history_grant @ [(ctx alice 259300, Call_executeProposal 0)]))
   \<and> status (proposals (after (history_grant @ [(ctx alice 259300, Call_executeProposal 0)])) 0) = Executed
   \<and> roles (after (history_grant @ [(ctx alice 259300, Call_executeProposal 0)])) MODERATOR_ROLE bob
   \<and> executeProposal (ctx bob 300000) 0 (after (history_grant @ [(ctx alice 259300, Call_executeProposal 0)]))
      = Inl (Revert ''Proposal not active'')
   \<and> executeProposal (ctx alice 259300) 0 (after history_update)
      = Inr (after (history_update @ [(ctx alice 259300, Call_executeProposal 0)]))
   \<and> voteDuration (after history_update) = 259200
   \<and> voteDuration (after (history_update @ [(ctx alice 259300, Call_executeProposal 0)])) = 600
   \<and> executeProposal (ctx alice 259300) 0 (after history_revoke)
      = Inr (after (history_revoke @ [(ctx alice 259300, Call_executeProposal 0)]))
   \<and> roles (after history_revoke) ADMIN_ROLE deployer
   \<and> \<not> roles (after (history_revoke @ [(ctx alice 259300, Call_executeProposal 0)])) ADMIN_ROLE deployer
   \<and> executeProposal (ctx alice 259300) 0 (after history_grant_open)
      = Inr (after (history_grant_open @ [(ctx alice 259300, Call_executeProposal 0)]))
   \<and> status (proposals (after (history_grant_open @ [(ctx alice 259300, Call_executeProposal 0)])) 0)
        = Rejected
   \<and> \<not> roles (after (history_grant_open @ [(ctx alice 259300, Call_executeProposal 0)])) MODERATOR_ROLE bob
   \<and> (\<exists>err. executeProposal (ctx alice 259300) 0 (after history_empty_payload) = Inl err)
   \<and> executeModerationVote (ctx bob 259300) 1 (after history_huge_weights) = Inl Panic"
proof -
  let ?v = "history_failing @ [(ctx bob 259300, Call_executeModerationVote 1)]"
  let ?pv = "history_passing @ [(ctx bob 259300, Call_executeModerationVote 1)]"
  let ?g = "history_grant @ [(ctx alice 259300, Call_executeProposal 0)]"
  let ?u = "history_update @ [(ctx alice 259300, Call_executeProposal 0)]"
  let ?r = "history_revoke @ [(ctx alice 259300, Call_executeProposal 0)]"
  let ?n = "history_grant_open @ [(ctx alice 259300, Call_executeProposal 0)]"
  have v1: "executeModerationVote (ctx bob 259300) 1 (after history_failing) = Inr (after ?v)"
    and vt: "proposalId (moderationVotes (after history_failing) 1) = 0"
      "forVotes (proposals (after history_failing) 0) = 60"
      "againstVotes (proposals (after history_failing) 0) = 100"
    by (simp_all add: history_failing_def history_vote_open_def eval_defs)
  have pv1: "executeModerationVote (ctx bob 259300) 1 (after history_passing) = Inr (after ?pv)"
    and pvt: "proposalId (moderationVotes (after history_passing) 1) = 0"
      "forVotes (proposals (after history_passing) 0) = 60"
      "againstVotes (proposals (after history_passing) 0) = 0"
    by (simp_all add: history_passing_def history_vote_open_def eval_defs)
  have g1: "executeProposal (ctx alice 259300) 0 (after history_grant) = Inr (after ?g)"
    and gv: "againstVotes (proposals (after history_grant) 0) < forVotes (proposals (after history_grant) 0)"
    and gt: "proposalType (proposals (after history_grant) 0) = GrantRole"
    and gd: "abi_decode_bytes32_address (data (proposals (after history_grant) 0))
               = Some (MODERATOR_ROLE, bob)"
    by (simp_all add: history_grant_def history_grant_open_def eval_defs)
  have u1: "executeProposal (ctx alice 259300) 0 (after history_update) = Inr (after ?u)"
    and uv: "againstVotes (proposals (after history_update) 0) < forVotes (proposals (after history_update) 0)"
    and ut: "proposalType (proposals (after history_update) 0) = UpdateParameters"
    and ud: "abi_decode_string_uint256 (data (proposals (after history_update) 0))
               = Some (''voteDuration'', 600)"
    and u0: "voteDuration (after history_update) = 259200"
    by (simp_all add: history_update_def abi_encode_string_uint256_def eval_defs)
  have r1: "executeProposal (ctx alice 259300) 0 (after history_revoke) = Inr (after ?r)"
    and rv: "againstVotes (proposals (after history_revoke) 0) < forVotes (proposals (after history_revoke) 0)"
    and rt: "proposalType (proposals (after history_revoke) 0) = RevokeRole"
    and rd: "abi_decode_bytes32_address (data (proposals (after history_revoke) 0))
               = Some (ADMIN_ROLE, deployer)"
    and r0: "roles (after history_revoke) ADMIN_ROLE deployer"
    by (simp_all add: history_revoke_def eval_defs)
  have n1: "executeProposal (ctx alice 259300) 0 (after history_grant_open) = Inr (after ?n)"
    and nv: "\<not> againstVotes (proposals (after history_grant_open) 0)
                < forVotes (proposals (after history_grant_open) 0)"
    and n0: "\<not> roles (after history_grant_open) MODERATOR_ROLE bob"
    by (simp_all add: history_grant_open_def eval_defs)
  have e1: "proposal_id (proposals (after history_empty_payload) 0) = 0
      \<and> status (proposals (after history_empty_payload) 0) = Active
      \<and> endTime (proposals (after history_empty_payload) 0) \<le> block_timestamp (ctx alice 259300)"
    and e2: "againstVotes (proposals (after history_empty_payload) 0)
               < forVotes (proposals (after history_empty_payload) 0)"
    and e3: "\<not> payload_decodes (proposals (after history_empty_payload) 0)"
    by (simp_all add: history_empty_payload_def payload_decodes_def eval_defs)
  have w1: "vote_postId (moderationVotes (after history_huge_weights) 1) = 1
      \<and> \<not> executed (moderationVotes (after history_huge_weights) 1)
      \<and> vote_endTime (moderationVotes (after history_huge_weights) 1) \<le> block_timestamp (ctx bob 259300)"
    and w2: "\<not> forVotes (proposals (after history_huge_weights)
                  (proposalId (moderationVotes (after history_huge_weights) 1)))
             + againstVotes (proposals (after history_huge_weights)
                  (proposalId (moderationVotes (after history_huge_weights) 1))) \<le> UINT256_MAX"
    by (simp_all add: history_huge_weights_def history_vote_open_def eval_defs)
  have h1: "run [] (after ?v) = Inr (after ?v) \<and> (\<forall>x \<in> set []. snd x \<noteq> Call_startModerationVote 1)"
    by simp
  have h2: "run [] (after ?g) = Inr (after ?g) \<and> ([] = [] \<or> 0 < proposalIdCounter (after ?g))"
    by simp
  note a = execute_at_most_once [where e = "ctx bob 259300" and p = 1 and s = "after history_failing"
      and q = 0, THEN conjunct1, rule_format, OF v1]
  note pa = execute_at_most_once [where e = "ctx bob 259300" and p = 1 and s = "after history_passing"
      and q = 0, THEN conjunct1, rule_format, OF pv1]
  note b = execute_at_most_once [where e = "ctx alice 259300" and p = 1 and s = "after history_grant"
      and q = 0, THEN conjunct2, THEN conjunct1, rule_format, OF g1]
  note u = execute_at_most_once [where e = "ctx alice 259300" and p = 1 and s = "after history_update"
      and q = 0, THEN conjunct2, THEN conjunct1, rule_format, OF u1]
  note r = execute_at_most_once [where e = "ctx alice 259300" and p = 1 and s = "after history_revoke"
      and q = 0, THEN conjunct2, THEN conjunct1, rule_format, OF r1]
  note n = execute_at_most_once [where e = "ctx alice 259300" and p = 1 and s = "after history_grant_open"
      and q = 0, THEN conjunct2, THEN conjunct1, rule_format, OF n1]
  note c = execute_at_most_once [where e = "ctx alice 259300" and p = 1
      and s = "after history_empty_payload" and q = 0]
  note d = execute_at_most_once [where e = "ctx bob 259300" and p = 1
      and s = "after history_huge_weights" and q = 0]
  from a have aeq: "after ?v = (after history_failing)\<lparr>
        posts := (posts (after history_failing))(1 := (posts (after history_failing) 1)
                    \<lparr>moderationStatus := NoneStatus\<rparr>),
        proposals := (proposals (after history_failing))(0 := (proposals (after history_failing) 0)
                    \<lparr>status := Rejected\<rparr>),
        moderationVotes := (moderationVotes (after history_failing))
                    (1 := (moderationVotes (after history_failing) 1)\<lparr>executed := True\<rparr>)\<rparr>"
    and a1: "executed (moderationVotes (after ?v) 1)"
    and a2: "\<forall>h s2 e'. run h (after ?v) = Inr s2 \<and> (\<forall>x \<in> set h. snd x \<noteq> Call_startModerationVote 1)
             \<longrightarrow> executeModerationVote e' 1 s2 = Inl (Revert ''Vote already executed'')"
    by (simp_all add: vt vt [unfolded One_nat_def])
  have a3: "moderationStatus (posts (after ?v) 1) = NoneStatus"
    and a4: "status (proposals (after ?v) 0) = Rejected"
    by (subst aeq, simp)+
  from a2 h1 have a5: "executeModerationVote (ctx alice 300000) 1 (after ?v)
      = Inl (Revert ''Vote already executed'')"
    by blast
  from pa have paeq: "after ?pv = (after history_passing)\<lparr>
        posts := (posts (after history_passing))(1 := (posts (after history_passing) 1)
                    \<lparr>moderationStatus := Removed\<rparr>),
        proposals := (proposals (after history_passing))(0 := (proposals (after history_passing) 0)
                    \<lparr>status := Executed\<rparr>),
        moderationVotes := (moderationVotes (after history_passing))
                    (1 := (moderationVotes (after history_passing) 1)\<lparr>executed := True\<rparr>)\<rparr>"
    by (simp add: pvt pvt [unfolded One_nat_def])
  have pa3: "moderationStatus (posts (after ?pv) 1) = Removed"
    and pa4: "status (proposals (after ?pv) 0) = Executed"
    by (subst paeq, simp)+
  from b gv have b3: "status (proposals (after ?g) 0) = Executed" by simp
  from b gv gt obtain role account
    where bd: "abi_decode_bytes32_address (data (proposals (after history_grant) 0)) = Some (role, account)"
      and beq: "after ?g = (after history_grant)\<lparr>
          proposals := (proposals (after history_grant))(0 := (proposals (after history_grant) 0)
                         \<lparr>status := Executed\<rparr>),
          roles := (roles (after history_grant))(role := (roles (after history_grant) role)(account := True))\<rparr>"
    by blast
  from bd gd have bra: "role = MODERATOR_ROLE" "account = bob" by simp_all
  have b5: "roles (after ?g) MODERATOR_ROLE bob"
    by (subst beq) (simp add: bra)
  from b have b2: "\<forall>h s2 e'. run h (after ?g) = Inr s2 \<and> (h = [] \<or> 0 < proposalIdCounter (after ?g))
             \<longrightarrow> executeProposal e' 0 s2 = Inl (Revert ''Proposal not active'')"
    by blast
  from b2 h2 have b4: "executeProposal (ctx bob 300000) 0 (after ?g) = Inl (Revert ''Proposal not active'')"
    by blast
  from u uv ut obtain name v
    where udd: "abi_decode_string_uint256 (data (proposals (after history_update) 0)) = Some (name, v)"
      and ueq: "after ?u = (if name = ''flagThreshold'' then (after history_update)\<lparr>flagThreshold := v\<rparr>
                          else if name = ''voteDuration'' then (after history_update)\<lparr>voteDuration := v\<rparr>
                          else if name = ''quorumPercentage''
                            then (after history_update)\<lparr>quorumPercentage := v\<rparr>
                          else after history_update)
                         \<lparr>proposals := (proposals (after history_update))
                            (0 := (proposals (after history_update) 0)\<lparr>status := Executed\<rparr>)\<rparr>"
    by blast
  from udd ud have unv: "name = ''voteDuration''" "v = 600" by simp_all
  have u5: "voteDuration (after ?u) = 600"
    by (subst ueq) (simp add: unv)
  from r rv rt obtain role' account'
    where rdd: "abi_decode_bytes32_address (data (proposals (after history_revoke) 0)) = Some (role', account')"
      and req: "after ?r = (after history_revoke)\<lparr>
          proposals := (proposals (after history_revoke))(0 := (proposals (after history_revoke) 0)
                         \<lparr>status := Executed\<rparr>),
          roles := (roles (after history_revoke))
                     (role' := (roles (after history_revoke) role')(account' := False))\<rparr>"
    by blast
  from rdd rd have rra: "role' = ADMIN_ROLE" "account' = deployer" by simp_all
  have r5: "\<not> roles (after ?r) ADMIN_ROLE deployer"
    by (subst req) (simp add: rra)
  from n nv have n3: "status (proposals (after ?n) 0) = Rejected"
    and neq: "after ?n = (after history_grant_open)\<lparr>proposals := (proposals (after history_grant_open))
                 (0 := (proposals (after history_grant_open) 0)\<lparr>status := Rejected\<rparr>)\<rparr>"
    by simp_all
  have n5: "\<not> roles (after ?n) MODERATOR_ROLE bob"
    by (subst neq) (simp add: n0)
  from c e1 e2 e3 have c1: "\<exists>err. executeProposal (ctx alice 259300) 0 (after history_empty_payload) = Inl err"
    by simp
  from d w1 w2 have d1: "executeModerationVote (ctx bob 259300) 1 (after history_huge_weights) = Inl Panic"
    by simp
  show ?thesis
    using v1 a3 a4 a1 a5 pv1 pa3 pa4 g1 b3 b5 b4 u1 u0 u5 r1 r0 r5 n1 n3 n5 c1 d1
    by (intro conjI)
qed

text \<open>
  Claim C7 as stated fails on the first call: the passing \<open>UpdateParameters\<close> proposal with
  an empty payload is due, yet \<open>executeProposal\<close> reverts on it, and the moderation vote
  with \<open>2^255\<close> for and \<open>2^255\<close> against is due, yet \<open>executeModerationVote\<close> reverts on it.
\<close>

theorem execute_first_call_counterexample:
  "proposal_id (proposals (after history_empty_payload) 0) = 0
   \<and> status (proposals (after history_empty_payload) 0) = Active
   \<and> proposalType (proposals (after history_empty_payload) 0) = UpdateParameters
   \<and> endTime (proposals (after history_empty_payload) 0) \<le> 259300
   \<and> forVotes (proposals (after history_empty_payload) 0) = 1
   \<and> againstVotes (proposals (after history_empty_payload) 0) = 0
   \<and> executeProposal (ctx alice 259300) 0 (after history_empty_payload) = Inl DecodeFailure
   \<and> vote_postId (moderationVotes (after history_huge_weights) 1) = 1
   \<and> \<not> executed (moderationVotes (after history_huge_weights) 1)
   \<and> vote_endTime (moderationVotes (after history_huge_weights) 1) \<le> 259300
   \<and> executeModerationVote (ctx bob 259300) 1 (after history_huge_weights) = Inl Panic"
  by (simp add: history_empty_payload_def history_huge_weights_def history_vote_open_def eval_defs)

section \<open>Where the contract departs from the claims\<close>

text \<open>
  Claim C1 says that \<open>executeProposal\<close> on a passing \<open>RemoveContent\<close> proposal removes the
  post. The contract on \<open>history_passing\<close>: proposal 0 is the \<open>RemoveContent\<close> proposal of
  post 1, \<open>Active\<close>, with 60 for and 0 against; at the deadline \<open>executeProposal\<close> succeeds
  and sets the proposal to \<open>Executed\<close>, and post 1 is still \<open>UnderVote\<close>.
\<close>

theorem executeProposal_RemoveContent_leaves_post:
  "proposalType (proposals (after history_passing) 0) = RemoveContent
   \<and> abi_decode_uint256 (data (proposals (after history_passing) 0)) = Some 1
   \<and> status (proposals (after history_passing) 0) = Active
   \<and> forVotes (proposals (after history_passing) 0) = 60
   \<and> againstVotes (proposals (after history_passing) 0) = 0
   \<and> endTime (proposals (after history_passing) 0) = 259300
   \<and> moderationStatus (posts (after history_passing) 1) = UnderVote
   \<and> executeProposal (ctx bob 259300) 0 (after history_passing) = Inr (after history_passing_executed)
   \<and> status (proposals (after history_passing_executed) 0) = Executed
   \<and> moderationStatus (posts (after history_passing_executed) 1) = UnderVote"
  by (simp add: history_passing_executed_def history_passing_def history_vote_open_def eval_defs)

text \<open>
  Claim C2 says that a post only moves along None, Flagged, UnderVote, then Removed or
  None. The contract on \<open>history_no_vote\<close>: post 0 is \<open>None\<close> and no moderation vote was
  ever started, so the vote record of post 0 is the zero record, whose post id is 0;
  \<open>executeModerationVote 0\<close> passes the check "Vote does not exist", reads proposal 0 (an
  unrelated \<open>GrantRole\<close> proposal with one vote for) and moves post 0 from \<open>None\<close> to
  \<open>Removed\<close>.
\<close>

theorem executeModerationVote_without_vote:
  "author (posts (after history_no_vote) 0) = alice
   \<and> moderationStatus (posts (after history_no_vote) 0) = NoneStatus
   \<and> moderationVotes (after history_no_vote) 0 = zero_ModerationVote
   \<and> proposalType (proposals (after history_no_vote) 0) = GrantRole
   \<and> executeModerationVote (ctx alice 100) 0 (after history_no_vote)
       = Inr (after (history_no_vote @ [(ctx alice 100, Call_executeModerationVote 0)]))
   \<and> moderationStatus (posts (after (history_no_vote
         @ [(ctx alice 100, Call_executeModerationVote 0)])) 0) = Removed"
  by (simp add: history_no_vote_def eval_defs)

text \<open>
  Claim C3 says that a proposal is executed at most once over both entry points. The
  contract after \<open>history_passing_executed\<close>: proposal 0, linked to the vote of post 1,
  is \<open>Executed\<close> by \<open>executeProposal\<close>; \<open>executeModerationVote 1\<close> then succeeds all the
  same, writes the status of proposal 0 once more and removes post 1.
\<close>

theorem proposal_executed_twice:
  "proposalId (moderationVotes (after history_passing) 1) = 0
   \<and> executeProposal (ctx bob 259300) 0 (after history_passing) = Inr (after history_passing_executed)
   \<and> status (proposals (after history_passing_executed) 0) = Executed
   \<and> moderationStatus (posts (after history_passing_executed) 1) = UnderVote
   \<and> executeModerationVote (ctx bob 259300) 1 (after history_passing_executed)
       = Inr (after (history_passing_executed @ [(ctx bob 259300, Call_executeModerationVote 1)]))
   \<and> status (proposals (after (history_passing_executed
         @ [(ctx bob 259300, Call_executeModerationVote 1)])) 0) = Executed
   \<and> moderationStatus (posts (after (history_passing_executed
         @ [(ctx bob 259300, Call_executeModerationVote 1)])) 1) = Removed"
  by (simp add: history_passing_executed_def history_passing_def history_vote_open_def eval_defs)

text \<open>
  Claim C5 says that the tallies of a moderation vote always equal those of its linked
  proposal. The contract after \<open>history_second_proposal\<close>: the vote of post 1 is linked to
  proposal 0, which was created by \<open>startModerationVote\<close> and is still \<open>Active\<close>; the vote
  cast on proposal 1 was mirrored into the vote of post 1, which holds 5 for, and
  proposal 0 holds 0 for.
\<close>

theorem tallies_out_of_sync:
  "proposalType (proposals (after history_second_proposal) 0) = RemoveContent
   \<and> proposer (proposals (after history_second_proposal) 0) = moderator
   \<and> status (proposals (after history_second_proposal) 0) = Active
   \<and> vote_postId (moderationVotes (after history_second_proposal) 1) = 1
   \<and> proposalId (moderationVotes (after history_second_proposal) 1) = 0
   \<and> forRemovalVotes (moderationVotes (after history_second_proposal) 1) = 5
   \<and> forVotes (proposals (after history_second_proposal) 0) = 0
   \<and> forVotes (proposals (after history_second_proposal) 1) = 5"
  by (simp add: history_second_proposal_def history_vote_open_def eval_defs)

end
